theory Spec2Isabelle
  imports Main
begin

section \<open>Exceptions and action results\<close>

text \<open>
  A thrown JavaScript value: an object with a \<^verbatim>\<open>name\<close> (\<^verbatim>\<open>Error\<close>, \<^verbatim>\<open>TypeError\<close>,
  \<^verbatim>\<open>RateLimitError\<close>, ...) and a \<^verbatim>\<open>message\<close>, and whether it is an \<^verbatim>\<open>Error\<close> object
  (\<^verbatim>\<open>instanceof Error\<close>). A function that may throw returns \<open>exn + 'a\<close>, with \<open>Inl\<close> the
  exception, paired with the state it leaves behind.
\<close>

datatype exn = Exn (exn_name: string) (exn_message: string) (exn_is_error: bool)

definition Error :: "string \<Rightarrow> exn" where
  "Error m = Exn ''Error'' m True"

definition TypeError :: "string \<Rightarrow> exn" where
  "TypeError m = Exn ''TypeError'' m True"

definition ReferenceError :: "string \<Rightarrow> exn" where
  "ReferenceError m = Exn ''ReferenceError'' m True"

text \<open>
  \<^verbatim>\<open>ActionResult\<close> (controller/views.js): every field is optional; an absent field is
  \<open>None\<close>.
\<close>

record ActionResult =
  error :: "string option"
  extractedContent :: "string option"
  includeInMemory :: "bool option"
  isDone :: "bool option"

text \<open>
  JavaScript truthiness of an optional string and of an optional boolean: \<^verbatim>\<open>undefined\<close>,
  the empty string and \<^verbatim>\<open>false\<close> are falsy.
\<close>

definition truthy_string :: "string option \<Rightarrow> bool" where
  "truthy_string s = (case s of None \<Rightarrow> False | Some t \<Rightarrow> t \<noteq> [])"

definition truthy_bool :: "bool option \<Rightarrow> bool" where
  "truthy_bool b = (case b of None \<Rightarrow> False | Some t \<Rightarrow> t)"

text \<open>
  The pattern \<^verbatim>\<open>if (x) { ... x ... }\<close> on an optional string: the branch taken with the
  string when it is truthy, and the value when it is not.
\<close>

definition if_truthy :: "string option \<Rightarrow> (string \<Rightarrow> 'a) \<Rightarrow> 'a \<Rightarrow> 'a" where
  "if_truthy s f d = (case s of None \<Rightarrow> d | Some t \<Rightarrow> if t \<noteq> [] then f t else d)"

section \<open>Action registry and dispatcher\<close>

text \<open>
  A parameter model is a class with a constructor and a \<^verbatim>\<open>validate\<close> method
  (controller/views.js). The raw parameters are \<open>'p option\<close>, \<open>None\<close> being
  \<^verbatim>\<open>undefined\<close>; the constructed object is a \<open>'v\<close>.
\<close>

record ('p, 'v) ParamModel =
  construct :: "'p option \<Rightarrow> 'v"
  validate :: "'v \<Rightarrow> bool"

text \<open>
  \<^verbatim>\<open>RegisteredAction\<close> (registry/views.js). The implementation \<open>func\<close> (the source's field
  \<^verbatim>\<open>function\<close>) receives the validated parameters and, when the action requires it, the
  browser; it acts on the outside world \<open>'w\<close> and returns a result or throws.
\<close>

record ('p, 'v, 'b, 'w) RegisteredAction =
  name :: string
  description :: string
  func :: "'v \<Rightarrow> 'b option \<Rightarrow> 'w \<Rightarrow> (exn + ActionResult) \<times> 'w"
  paramModel :: "('p, 'v) ParamModel"
  requiresBrowser :: bool

type_synonym ('p, 'v, 'b, 'w) ActionRegistry = "string \<rightharpoonup> ('p, 'v, 'b, 'w) RegisteredAction"

text \<open>
  \<^verbatim>\<open>Registry.action(description, paramModel, requiresBrowser)(func)\<close>: stores the action
  under the implementation's own name \<^verbatim>\<open>func.name\<close>, overwriting an earlier entry.
\<close>

definition registry_action ::
  "('p, 'v, 'b, 'w) ActionRegistry \<Rightarrow> string \<Rightarrow> ('p, 'v) ParamModel \<Rightarrow> bool \<Rightarrow> string \<Rightarrow>
   ('v \<Rightarrow> 'b option \<Rightarrow> 'w \<Rightarrow> (exn + ActionResult) \<times> 'w) \<Rightarrow> ('p, 'v, 'b, 'w) ActionRegistry" where
  "registry_action actions descr pm rb func_name f =
     actions(func_name \<mapsto>
       \<lparr>name = func_name, description = descr, func = f, paramModel = pm, requiresBrowser = rb\<rparr>)"

text \<open>
  The registry's \<^verbatim>\<open>actions\<close> is a plain object, and the test \<^verbatim>\<open>actionName in actions\<close>
  also finds the properties every object inherits. For such a name that is not registered
  the entry read is not an action: it has no \<^verbatim>\<open>paramModel\<close>, and constructing the
  parameters throws inside the \<^verbatim>\<open>try\<close> block.
\<close>

definition object_prototype_keys :: "string list" where
  "object_prototype_keys =
     [''constructor'', ''__defineGetter__'', ''__defineSetter__'', ''hasOwnProperty'',
      ''__lookupGetter__'', ''__lookupSetter__'', ''isPrototypeOf'', ''propertyIsEnumerable'',
      ''toString'', ''valueOf'', ''__proto__'', ''toLocaleString'']"

text \<open>
  \<^verbatim>\<open>Registry.executeAction\<close>. An unknown name throws before the \<^verbatim>\<open>try\<close>; every throw
  inside the \<^verbatim>\<open>try\<close> (validation, missing browser, the implementation itself) is caught
  and thrown again with the prefix \<^verbatim>\<open>Error executing action\<close>.
\<close>

definition executeAction ::
  "('p, 'v, 'b, 'w) ActionRegistry \<Rightarrow> string \<Rightarrow> 'p option \<Rightarrow> 'b option \<Rightarrow> 'w \<Rightarrow>
   (exn + ActionResult) \<times> 'w" where
  "executeAction actions actionName params browser w =
     (case actions actionName of
        None \<Rightarrow>
          if actionName \<in> set object_prototype_keys
          then (Inl (Error (''Error executing action '' @ actionName @
                  '': action.paramModel is not a constructor'')), w)
          else (Inl (Error (''Action '' @ actionName @ '' not found'')), w)
      | Some act \<Rightarrow>
          (let validatedParams = construct (paramModel act) params;
               attempt =
                 (if \<not> validate (paramModel act) validatedParams
                  then (Inl (Error (''Invalid parameters for action '' @ actionName)), w)
                  else if requiresBrowser act
                  then (case browser of
                          None \<Rightarrow>
                            (Inl (Error (''Action '' @ actionName @
                               '' requires browser but none provided'')), w)
                        | Some b \<Rightarrow> func act validatedParams (Some b) w)
                  else func act validatedParams None w)
           in case attempt of
                (Inl e, w') \<Rightarrow>
                  (Inl (Error (''Error executing action '' @ actionName @ '': '' @ exn_message e)), w')
              | (Inr r, w') \<Rightarrow> (Inr r, w')))"

text \<open>
  \<^verbatim>\<open>Controller._executeWithResult\<close>: runs an implementation and turns a throw into a
  result whose \<^verbatim>\<open>error\<close> is the exception's message.
\<close>

definition executeWithResult ::
  "('w \<Rightarrow> (exn + ActionResult) \<times> 'w) \<Rightarrow> 'w \<Rightarrow> (exn + ActionResult) \<times> 'w" where
  "executeWithResult impl w =
     (case impl w of
        (Inl e, w') \<Rightarrow>
          (Inr \<lparr>error = Some (exn_message e), extractedContent = None,
                 includeInMemory = None, isDone = None\<rparr>, w')
      | (Inr r, w') \<Rightarrow> (Inr r, w'))"

text \<open>
  \<^verbatim>\<open>Controller.act\<close>. An action is an object \<^verbatim>\<open>{actionName: params}\<close>, here the list of
  its entries in enumeration order; the first key names the action. On an object with no
  key, \<^verbatim>\<open>Object.keys(action)[0]\<close> is \<^verbatim>\<open>undefined\<close>, which the registry looks up as the
  string \<^verbatim>\<open>undefined\<close>, with \<^verbatim>\<open>undefined\<close> parameters.
\<close>

definition act ::
  "('p, 'v, 'b, 'w) ActionRegistry \<Rightarrow> (string \<times> 'p) list \<Rightarrow> 'b option \<Rightarrow> 'w \<Rightarrow>
   (exn + ActionResult) \<times> 'w" where
  "act actions a browser w =
     (case a of
        [] \<Rightarrow> executeAction actions ''undefined'' None browser w
      | (actionName, params) # _ \<Rightarrow> executeAction actions actionName (Some params) browser w)"

text \<open>The loop's exit test \<^verbatim>\<open>result.error || result.isDone\<close>.\<close>

definition stops :: "ActionResult \<Rightarrow> bool" where
  "stops r = (truthy_string (error r) \<or> truthy_bool (isDone r))"

text \<open>
  \<^verbatim>\<open>Controller.multiAct\<close>: the \<^verbatim>\<open>for\<close> loop over the actions, with the results pushed so far
  as accumulator. A throw of \<^verbatim>\<open>act\<close> leaves the loop and the function.
\<close>

fun multiAct_loop ::
  "('p, 'v, 'b, 'w) ActionRegistry \<Rightarrow> (string \<times> 'p) list list \<Rightarrow> 'b option \<Rightarrow>
   ActionResult list \<Rightarrow> 'w \<Rightarrow> (exn + ActionResult list) \<times> 'w" where
  "multiAct_loop actions [] browser results w = (Inr results, w)"
| "multiAct_loop actions (a # rest) browser results w =
     (case act actions a browser w of
        (Inl e, w') \<Rightarrow> (Inl e, w')
      | (Inr result, w') \<Rightarrow>
          (if stops result then (Inr (results @ [result]), w')
           else multiAct_loop actions rest browser (results @ [result]) w'))"

definition multiAct ::
  "('p, 'v, 'b, 'w) ActionRegistry \<Rightarrow> (string \<times> 'p) list list \<Rightarrow> 'b option \<Rightarrow> 'w \<Rightarrow>
   (exn + ActionResult list) \<times> 'w" where
  "multiAct actions as browser w = multiAct_loop actions as browser [] w"

text \<open>
  The reference the dispatcher is compared with: every action of a list executed once, in
  the list's order, each on the world the previous one left, with no early exit.
\<close>

fun exec_in_order ::
  "('p, 'v, 'b, 'w) ActionRegistry \<Rightarrow> (string \<times> 'p) list list \<Rightarrow> 'b option \<Rightarrow> 'w \<Rightarrow>
   (exn + ActionResult list) \<times> 'w" where
  "exec_in_order actions [] browser w = (Inr [], w)"
| "exec_in_order actions (a # rest) browser w =
     (case act actions a browser w of
        (Inl e, w') \<Rightarrow> (Inl e, w')
      | (Inr r, w') \<Rightarrow>
          (case exec_in_order actions rest browser w' of
             (Inl e, w'') \<Rightarrow> (Inl e, w'')
           | (Inr rs, w'') \<Rightarrow> (Inr (r # rs), w'')))"


text \<open>
  When an action can be dispatched: its name is registered, its parameters validate and
  a browser is there if the action requires one; and the exception \<open>executeAction\<close>
  throws when it cannot.
\<close>

definition actionName_of :: "(string \<times> 'p) list \<Rightarrow> string" where
  "actionName_of a = (case a of [] \<Rightarrow> ''undefined'' | (n, _) # _ \<Rightarrow> n)"

definition params_of :: "(string \<times> 'p) list \<Rightarrow> 'p option" where
  "params_of a = (case a of [] \<Rightarrow> None | (_, p) # _ \<Rightarrow> Some p)"

definition dispatchable ::
  "('p, 'v, 'b, 'w) ActionRegistry \<Rightarrow> 'b option \<Rightarrow> (string \<times> 'p) list \<Rightarrow> bool" where
  "dispatchable actions browser a =
     (case actions (actionName_of a) of
        None \<Rightarrow> False
      | Some ra \<Rightarrow>
          validate (paramModel ra) (construct (paramModel ra) (params_of a)) \<and>
          (requiresBrowser ra \<longrightarrow> browser \<noteq> None))"

definition dispatch_error ::
  "('p, 'v, 'b, 'w) ActionRegistry \<Rightarrow> (string \<times> 'p) list \<Rightarrow> exn" where
  "dispatch_error actions a =
     (let n = actionName_of a in
      case actions n of
        None \<Rightarrow>
          if n \<in> set object_prototype_keys
          then Error (''Error executing action '' @ n @ '': action.paramModel is not a constructor'')
          else Error (''Action '' @ n @ '' not found'')
      | Some ra \<Rightarrow>
          if \<not> validate (paramModel ra) (construct (paramModel ra) (params_of a))
          then Error (''Error executing action '' @ n @ '': Invalid parameters for action '' @ n)
          else Error (''Error executing action '' @ n @ '': Action '' @ n @
                 '' requires browser but none provided''))"

definition never_throws :: "('v \<Rightarrow> 'b option \<Rightarrow> 'w \<Rightarrow> (exn + ActionResult) \<times> 'w) \<Rightarrow> bool" where
  "never_throws f = (\<forall>v b w. \<exists>r w'. f v b w = (Inr r, w'))"


subsection \<open>An example registry\<close>

text \<open>
  Two actions over a world that logs every click: \<^verbatim>\<open>click\<close>, wrapped in
  \<^verbatim>\<open>_executeWithResult\<close> as the controller's browser actions are, fails on the element
  \<^verbatim>\<open>gone\<close>; \<^verbatim>\<open>done\<close> is the controller's \<^verbatim>\<open>Complete task\<close> action.
\<close>

definition example_click :: "string \<Rightarrow> unit option \<Rightarrow> string list \<Rightarrow> (exn + ActionResult) \<times> string list" where
  "example_click p b =
     executeWithResult (\<lambda>w.
       if p = ''gone'' then (Inl (Error ''Element does not exist''), w)
       else (Inr \<lparr>error = None, extractedContent = Some p, includeInMemory = Some True,
                  isDone = None\<rparr>, w @ [p]))"

definition example_done :: "string \<Rightarrow> unit option \<Rightarrow> string list \<Rightarrow> (exn + ActionResult) \<times> string list" where
  "example_done p b w =
     (Inr \<lparr>error = None, extractedContent = Some p, includeInMemory = None, isDone = Some True\<rparr>, w)"

definition example_model :: "(string, string) ParamModel" where
  "example_model = \<lparr>construct = (\<lambda>p. case p of None \<Rightarrow> [] | Some s \<Rightarrow> s), validate = (\<lambda>v. v \<noteq> [])\<rparr>"

definition example_registry :: "(string, string, unit, string list) ActionRegistry" where
  "example_registry =
     registry_action (registry_action Map.empty ''Click element'' example_model True ''click'' example_click)
       ''Complete task'' example_model False ''done'' example_done"

definition example_actions :: "(string \<times> string) list list" where
  "example_actions = [[(''click'', ''a'')], [(''click'', ''b'')], [(''click'', ''gone'')], [(''click'', ''c'')]]"

definition example_results :: "ActionResult list" where
  "example_results =
     [\<lparr>error = None, extractedContent = Some ''a'', includeInMemory = Some True, isDone = None\<rparr>,
      \<lparr>error = None, extractedContent = Some ''b'', includeInMemory = Some True, isDone = None\<rparr>,
      \<lparr>error = Some ''Element does not exist'', extractedContent = None, includeInMemory = None, isDone = None\<rparr>]"


section \<open>DOM tree, selector map and serialisation\<close>

text \<open>
  Strings are lists of characters; the decimal rendering of a number, as a template
  literal prints an integer.
\<close>

definition digit_char :: "nat \<Rightarrow> char" where
  "digit_char d = ''0123456789'' ! d"

fun nat_digits :: "nat \<Rightarrow> string \<Rightarrow> string" where
  "nat_digits n acc =
     (if n < 10 then digit_char n # acc
      else nat_digits (n div 10) (digit_char (n mod 10) # acc))"

declare nat_digits.simps [simp del]

definition number_string :: "int \<Rightarrow> string" where
  "number_string i =
     (if 0 \<le> i then nat_digits (nat i) [] else CHR ''-'' # nat_digits (nat (- i)) [])"

text \<open>\<^verbatim>\<open>Array.prototype.join\<close> on strings.\<close>

fun join :: "string \<Rightarrow> string list \<Rightarrow> string" where
  "join sep [] = []"
| "join sep [x] = x"
| "join sep (x # y # zs) = x @ sep @ join sep (y # zs)"

text \<open>\<^verbatim>\<open>String.prototype.trim\<close>, on the ASCII white space characters.\<close>

definition is_space :: "char \<Rightarrow> bool" where
  "is_space c = (c \<in> set [CHR '' '', CHR 0x09, CHR 0x0A, CHR 0x0B, CHR 0x0C, CHR 0x0D])"

definition trim :: "string \<Rightarrow> string" where
  "trim s = rev (dropWhile is_space (rev (dropWhile is_space s)))"

text \<open>
  The two node classes of dom/views.js. A \<^verbatim>\<open>DOMElementNode\<close> owns its children; its
  \<^verbatim>\<open>highlightIndex\<close> is a number or \<^verbatim>\<open>null\<close> (\<open>None\<close>), its attributes are the entries
  of the attribute object in enumeration order. A \<^verbatim>\<open>DOMTextNode\<close> has a text and a
  visibility flag and no other property: no \<^verbatim>\<open>highlightIndex\<close>, no \<^verbatim>\<open>children\<close>, no
  methods. The \<^verbatim>\<open>parent\<close> back-reference is modelled apart, by \<open>Located\<close> below.
\<close>

datatype DOMNode =
    DOMElementNode (tagName: string) (xpath: string) (attributes: "(string \<times> string) list")
      (children: "DOMNode list") (isVisible: bool) (isInteractive: bool) (isTopElement: bool)
      (highlightIndex: "int option") (shadowRoot: bool)
  | DOMTextNode (nodeText: string) (isVisible: bool)

text \<open>\<^verbatim>\<open>DOMState\<close>: the element tree and the selector map.\<close>

record DOMState =
  elementTree :: DOMNode
  selectorMap :: "int \<rightharpoonup> DOMNode"

text \<open>
  \<^verbatim>\<open>DomService._createSelectorMap\<close>: \<open>processNode\<close> walks the element nodes in document
  order and stores every node with a non-null index under that index, a later node
  overwriting an earlier one with the same index. A text node is skipped by the
  \<^verbatim>\<open>instanceof DOMElementNode\<close> test.
\<close>

fun processNode :: "(int \<rightharpoonup> DOMNode) \<Rightarrow> DOMNode \<Rightarrow> (int \<rightharpoonup> DOMNode)" where
  "processNode selMap (DOMElementNode tag xp attrs cs vis ia te hi sh) =
     foldl processNode
       (case hi of
          None \<Rightarrow> selMap
        | Some i \<Rightarrow> selMap(i \<mapsto> DOMElementNode tag xp attrs cs vis ia te hi sh))
       cs"
| "processNode selMap (DOMTextNode t vis) = selMap"

definition createSelectorMap :: "DOMNode \<Rightarrow> (int \<rightharpoonup> DOMNode)" where
  "createSelectorMap root = processNode Map.empty root"

text \<open>
  The raw node data the page script returns, as \<^verbatim>\<open>_parseNode\<close> reads it: a text entry
  (\<^verbatim>\<open>type === 'TEXT_NODE'\<close>) or an element entry whose optional fields may be absent and
  whose child list may hold \<^verbatim>\<open>null\<close> entries.
\<close>

datatype NodeData =
    TextData string "bool option"
  | ElementData string string "(string \<times> string) list option" "NodeData option list"
      "bool option" "bool option" "bool option" "int option" "bool option"

definition or_false :: "bool option \<Rightarrow> bool" where
  "or_false b = (case b of None \<Rightarrow> False | Some t \<Rightarrow> t)"

text \<open>
  \<^verbatim>\<open>DomService._parseNode\<close>. A child that is \<^verbatim>\<open>null\<close> is left out; every parsed node is
  an object, so none is dropped by the second test.
\<close>

fun parseNode :: "NodeData \<Rightarrow> DOMNode"
  and parseChildren :: "NodeData option list \<Rightarrow> DOMNode list" where
  "parseNode (TextData t vis) = DOMTextNode t (or_false vis)"
| "parseNode (ElementData tag xp attrs cs vis ia te hi sh) =
     DOMElementNode tag xp (case attrs of None \<Rightarrow> [] | Some as \<Rightarrow> as)
       (parseChildren cs) (or_false vis) (or_false ia) (or_false te) hi (or_false sh)"
| "parseChildren [] = []"
| "parseChildren (None # cs) = parseChildren cs"
| "parseChildren (Some c # cs) = parseNode c # parseChildren cs"

text \<open>
  \<^verbatim>\<open>DomService._buildDomTree\<close>, given the result of the page script (\<open>None\<close> when the script
  returns nothing): the parsed root must be an element node.
\<close>

definition buildDomTree :: "NodeData option \<Rightarrow> exn + DOMNode" where
  "buildDomTree result =
     (case result of
        None \<Rightarrow> Inl (Error ''Failed to build DOM tree'')
      | Some nodeData \<Rightarrow>
          (case parseNode nodeData of
             DOMTextNode t vis \<Rightarrow> Inl (Error ''Failed to parse HTML to dictionary'')
           | DOMElementNode tag xp attrs cs vis ia te hi sh \<Rightarrow>
               Inr (DOMElementNode tag xp attrs cs vis ia te hi sh)))"

text \<open>\<^verbatim>\<open>DomService.getClickableElements\<close>.\<close>

definition getClickableElements :: "NodeData option \<Rightarrow> exn + DOMState" where
  "getClickableElements result =
     (case buildDomTree result of
        Inl e \<Rightarrow> Inl e
      | Inr tree \<Rightarrow> Inr \<lparr>elementTree = tree, selectorMap = createSelectorMap tree\<rparr>)"

text \<open>
  The element nodes reachable from a node, in document order: what the selector map's
  keys are compared with.
\<close>

fun element_nodes :: "DOMNode \<Rightarrow> DOMNode list" where
  "element_nodes (DOMElementNode tag xp attrs cs vis ia te hi sh) =
     DOMElementNode tag xp attrs cs vis ia te hi sh # concat (map element_nodes cs)"
| "element_nodes (DOMTextNode t vis) = []"

definition highlight_indices :: "DOMNode \<Rightarrow> int list" where
  "highlight_indices root = List.map_filter highlightIndex (element_nodes root)"

text \<open>One step of the selector map's construction, on one element node.\<close>

definition store_indexed :: "(int \<rightharpoonup> DOMNode) \<Rightarrow> DOMNode \<Rightarrow> (int \<rightharpoonup> DOMNode)" where
  "store_indexed m e = (case highlightIndex e of None \<Rightarrow> m | Some i \<Rightarrow> m(i \<mapsto> e))"


text \<open>
  \<^verbatim>\<open>DOMElementNode.getAllTextTillNextClickableElement\<close>. The inner \<^verbatim>\<open>traverse\<close> returns
  whether the walk is to stop, together with the texts pushed so far. It is first called
  on the node itself, and the test \<^verbatim>\<open>node.isInteractive && node.highlightIndex !== null\<close>
  does not exempt that node.
\<close>

fun text_traverse :: "string list \<Rightarrow> DOMNode \<Rightarrow> bool \<times> string list"
  and text_traverse_children :: "string list \<Rightarrow> DOMNode list \<Rightarrow> bool \<times> string list" where
  "text_traverse texts (DOMTextNode t vis) = (False, texts @ [t])"
| "text_traverse texts (DOMElementNode tag xp attrs cs vis ia te hi sh) =
     (if ia \<and> hi \<noteq> None then (True, texts) else text_traverse_children texts cs)"
| "text_traverse_children texts [] = (False, texts)"
| "text_traverse_children texts (c # cs) =
     (case text_traverse texts c of
        (True, texts') \<Rightarrow> (True, texts')
      | (False, texts') \<Rightarrow> text_traverse_children texts' cs)"

definition getAllTextTillNextClickableElement :: "DOMNode \<Rightarrow> string" where
  "getAllTextTillNextClickableElement this = trim (join '' '' (snd (text_traverse [] this)))"

text \<open>
  \<^verbatim>\<open>DOMElementNode.clickableElementsToString\<close>. The inner \<^verbatim>\<open>traverse\<close> visits every child
  of every element. On a text node \<^verbatim>\<open>node.highlightIndex\<close> is \<^verbatim>\<open>undefined\<close>, which is
  \<^verbatim>\<open>!== null\<close>, so the branch for indexed nodes is entered; there the attribute lookup
  (when attributes are requested) or the call of the method a text node does not have
  throws a \<^verbatim>\<open>TypeError\<close>.
\<close>

definition render_element :: "string list \<Rightarrow> DOMNode \<Rightarrow> int \<Rightarrow> string" where
  "render_element includeAttributes n i =
     (let str = number_string i @ ''[:]<'' @ tagName n @ ''>'';
          attrs = join '' '' (filter (\<lambda>v. v \<noteq> [])
                    (List.map_filter (\<lambda>attr. map_of (attributes n) attr) includeAttributes));
          str1 = (if includeAttributes \<noteq> [] \<and> attrs \<noteq> [] then str @ attrs @ '' '' else str);
          txt = getAllTextTillNextClickableElement n;
          str2 = (if txt \<noteq> [] then str1 @ txt else str1)
      in str2 @ ''</'' @ tagName n @ ''>'')"

fun elements_traverse :: "string list \<Rightarrow> string list \<Rightarrow> DOMNode \<Rightarrow> exn + string list"
  and elements_traverse_children ::
    "string list \<Rightarrow> string list \<Rightarrow> DOMNode list \<Rightarrow> exn + string list" where
  "elements_traverse includeAttributes elems (DOMTextNode t vis) =
     Inl (TypeError
       (case includeAttributes of
          [] \<Rightarrow> ''node.getAllTextTillNextClickableElement is not a function''
        | attr # _ \<Rightarrow> ''Cannot read properties of undefined (reading '' @ [CHR 0x27] @ attr @
            [CHR 0x27] @ '')''))"
| "elements_traverse includeAttributes elems (DOMElementNode tag xp attrs cs vis ia te hi sh) =
     elements_traverse_children includeAttributes
       (case hi of
          None \<Rightarrow> elems
        | Some i \<Rightarrow>
            elems @ [render_element includeAttributes
                       (DOMElementNode tag xp attrs cs vis ia te hi sh) i])
       cs"
| "elements_traverse_children includeAttributes elems [] = Inr elems"
| "elements_traverse_children includeAttributes elems (c # cs) =
     (case elements_traverse includeAttributes elems c of
        Inl e \<Rightarrow> Inl e
      | Inr elems' \<Rightarrow> elements_traverse_children includeAttributes elems' cs)"

definition clickableElementsToString :: "string list \<Rightarrow> DOMNode \<Rightarrow> exn + string" where
  "clickableElementsToString includeAttributes this =
     (case elements_traverse includeAttributes [] this of
        Inl e \<Rightarrow> Inl e
      | Inr elems \<Rightarrow> Inr (join [CHR 0x0A] elems))"

text \<open>Whether a text node is reachable from a node.\<close>

fun has_text_node :: "DOMNode \<Rightarrow> bool" where
  "has_text_node (DOMTextNode t vis) = True"
| "has_text_node (DOMElementNode tag xp attrs cs vis ia te hi sh) = (\<exists>c \<in> set cs. has_text_node c)"


text \<open>
  The button of the snapshot scenario: an interactive \<^verbatim>\<open><button id="go">Go</button>\<close> with
  highlight index 0 at the root, as \<^verbatim>\<open>_parseNode\<close> builds it.
\<close>

definition go_button_data :: NodeData where
  "go_button_data =
     ElementData ''button'' ''/button'' (Some [(''id'', ''go'')]) [Some (TextData ''Go'' (Some True))]
       (Some True) (Some True) (Some True) (Some 0) None"

definition go_button :: DOMNode where
  "go_button =
     DOMElementNode ''button'' ''/button'' [(''id'', ''go'')] [DOMTextNode ''Go'' True]
       True True True (Some 0) False"

text \<open>A page with two indexed elements, one nested in the other, and plain text.\<close>

definition example_page :: DOMNode where
  "example_page =
     DOMElementNode ''body'' ''/body'' [] 
       [DOMElementNode ''div'' ''/body/div'' [(''role'', ''menu'')]
          [DOMTextNode ''Menu'' True,
           DOMElementNode ''a'' ''/body/div/a'' [(''href'', ''/x'')] [] True True True (Some 1) False]
          True False True (Some 0) False,
        DOMTextNode ''footer'' True]
       True False False None False"

definition example_page_data :: NodeData where
  "example_page_data =
     ElementData ''body'' ''/body'' None
       [Some (ElementData ''div'' ''/body/div'' (Some [(''role'', ''menu'')])
          [Some (TextData ''Menu'' (Some True)), None,
           Some (ElementData ''a'' ''/body/div/a'' (Some [(''href'', ''/x'')]) []
             (Some True) (Some True) (Some True) (Some 1) None)]
          (Some True) None (Some True) (Some 0) None),
        Some (TextData ''footer'' (Some True))]
       (Some True) None None None None"

section \<open>Stable identity of elements\<close>

text \<open>
  An element node together with its \<^verbatim>\<open>parent\<close> back-reference: the node and, unless it is
  the root, its located parent. The chain of parents is finite, as in every tree
  \<^verbatim>\<open>_parseNode\<close> builds.
\<close>

datatype Located = Located (node: DOMNode) (parent: "Located option")

text \<open>
  The reference \<^verbatim>\<open>_parseNode\<close> gives the node at a position of the tree (the child numbers
  leading to it from the root): the root is parsed with no parent, every child with the
  element that holds it.
\<close>

fun locate :: "Located option \<Rightarrow> DOMNode \<Rightarrow> nat list \<Rightarrow> Located option" where
  "locate par n [] = Some (Located n par)"
| "locate par n (i # is) =
     (case n of
        DOMElementNode tag xp attrs cs vis ia te hi sh \<Rightarrow>
          if i < length cs then locate (Some (Located n par)) (cs ! i) is else None
      | DOMTextNode t vis \<Rightarrow> None)"

text \<open>
  \<^verbatim>\<open>DOMHistoryElement\<close> and \<^verbatim>\<open>HashedDomElement\<close>; the fields of the first that an element
  node has too carry the prefix \<open>h_\<close>.
\<close>

record DOMHistoryElement =
  h_tagName :: string
  h_xpath :: string
  h_highlightIndex :: "int option"
  entireParentBranchPath :: "string list"
  h_attributes :: "(string \<times> string) list"
  h_shadowRoot :: bool

record HashedDomElement =
  branchPathHash :: string
  attributesHash :: string

text \<open>
  \<^verbatim>\<open>HistoryTreeProcessor._getParentBranchPath\<close>: the loop pushes the current element while
  it has a parent, so it pushes the element itself and every ancestor but the root; the
  list is then reversed and mapped to the tag names.
\<close>

fun parents_loop :: "Located \<Rightarrow> Located list \<Rightarrow> Located list" where
  "parents_loop (Located n None) parents = parents"
| "parents_loop (Located n (Some p)) parents = parents_loop p (parents @ [Located n (Some p)])"

definition getParentBranchPath :: "Located \<Rightarrow> string list" where
  "getParentBranchPath domElement =
     map (\<lambda>p. tagName (node p)) (rev (parents_loop domElement []))"

text \<open>\<^verbatim>\<open>HistoryTreeProcessor.convertDomElementToHistoryElement\<close>.\<close>

definition convertDomElementToHistoryElement :: "Located \<Rightarrow> DOMHistoryElement" where
  "convertDomElementToHistoryElement domElement =
     \<lparr>h_tagName = tagName (node domElement),
      h_xpath = xpath (node domElement),
      h_highlightIndex = highlightIndex (node domElement),
      entireParentBranchPath = getParentBranchPath domElement,
      h_attributes = attributes (node domElement),
      h_shadowRoot = shadowRoot (node domElement)\<rparr>"

text \<open>
  The hashes. The digest \<^verbatim>\<open>createHash('sha256').update(s).digest('hex')\<close> of the
  \<^verbatim>\<open>crypto\<close> library is the parameter \<open>H\<close>. The branch path is joined with \<^verbatim>\<open>/\<close>; the
  attribute entries are written \<^verbatim>\<open>key=value\<close> and concatenated with no separator.
\<close>

definition parentBranchPathHash :: "(string \<Rightarrow> string) \<Rightarrow> string list \<Rightarrow> string" where
  "parentBranchPathHash H parentBranchPath = H (join ''/'' parentBranchPath)"

definition attributesString :: "(string \<times> string) list \<Rightarrow> string" where
  "attributesString attrs = concat (map (\<lambda>(key, val). key @ ''='' @ val) attrs)"

definition attributesHashOf :: "(string \<Rightarrow> string) \<Rightarrow> (string \<times> string) list \<Rightarrow> string" where
  "attributesHashOf H attrs = H (attributesString attrs)"

definition hashDomHistoryElement :: "(string \<Rightarrow> string) \<Rightarrow> DOMHistoryElement \<Rightarrow> HashedDomElement" where
  "hashDomHistoryElement H domHistoryElement =
     \<lparr>branchPathHash = parentBranchPathHash H (entireParentBranchPath domHistoryElement),
      attributesHash = attributesHashOf H (h_attributes domHistoryElement)\<rparr>"

definition hashDomElement :: "(string \<Rightarrow> string) \<Rightarrow> Located \<Rightarrow> HashedDomElement" where
  "hashDomElement H domElement =
     \<lparr>branchPathHash = parentBranchPathHash H (getParentBranchPath domElement),
      attributesHash = attributesHashOf H (attributes (node domElement))\<rparr>"

text \<open>\<^verbatim>\<open>HistoryTreeProcessor.compareHistoryElementAndDomElement\<close>.\<close>

definition compareHistoryElementAndDomElement ::
  "(string \<Rightarrow> string) \<Rightarrow> DOMHistoryElement \<Rightarrow> Located \<Rightarrow> bool" where
  "compareHistoryElementAndDomElement H domHistoryElement domElement =
     (let hashedDomHistoryElement = hashDomHistoryElement H domHistoryElement;
          hashedDomElement = hashDomElement H domElement
      in branchPathHash hashedDomHistoryElement = branchPathHash hashedDomElement \<and>
         attributesHash hashedDomHistoryElement = attributesHash hashedDomElement)"

text \<open>
  The tags on the way from a node down to a position below it, both ends included: the
  full branch path the recorded path is compared with.
\<close>

fun tags_from_root :: "DOMNode \<Rightarrow> nat list \<Rightarrow> string list" where
  "tags_from_root n [] = [tagName n]"
| "tags_from_root n (i # is) = tagName n # tags_from_root (children n ! i) is"

text \<open>The chain of references from an element up to the root.\<close>

fun chain :: "Located \<Rightarrow> Located list" where
  "chain (Located n None) = [Located n None]"
| "chain (Located n (Some p)) = Located n (Some p) # chain p"

text \<open>
  Two pages \<^verbatim>\<open><html><body><div ...>\<close> whose \<^verbatim>\<open>div\<close> elements differ in their attributes
  only: one attribute \<^verbatim>\<open>a="1b=2"\<close> against the two attributes \<^verbatim>\<open>a="1" b="2"\<close>.
\<close>

definition div_node :: "(string \<times> string) list \<Rightarrow> DOMNode" where
  "div_node attrs = DOMElementNode ''div'' ''/html/body/div'' attrs [] True True True (Some 0) False"

definition body_node :: "(string \<times> string) list \<Rightarrow> DOMNode" where
  "body_node attrs = DOMElementNode ''body'' ''/html/body'' [] [div_node attrs] True False False None False"

definition page_with_div :: "(string \<times> string) list \<Rightarrow> DOMNode" where
  "page_with_div attrs = DOMElementNode ''html'' ''/html'' [] [body_node attrs] True False False None False"

definition div_of :: "(string \<times> string) list \<Rightarrow> Located" where
  "div_of attrs =
     Located (div_node attrs)
       (Some (Located (body_node attrs) (Some (Located (page_with_div attrs) None))))"

section \<open>Context window manager\<close>

text \<open>
  A message is a role and a content; the content is a string or an array of parts. A part
  is an object that may have the key \<^verbatim>\<open>image_url\<close> and may have the key \<^verbatim>\<open>text\<close> (here
  \<open>part_text\<close>); \<open>None\<close> is an absent key.
\<close>

record ContentPart =
  image_url :: "string option"
  part_text :: "string option"

datatype Content = StringContent string | ArrayContent "ContentPart list"

record Message =
  role :: string
  content :: Content

record MessageMetadata =
  inputTokens :: int

record ManagedMessage =
  message :: Message
  metadata :: MessageMetadata

record MessageHistory =
  messages :: "ManagedMessage list"
  totalTokens :: int

text \<open>
  The fields of a \<^verbatim>\<open>MessageManager\<close>. Token counts are integers. \<open>llm\<close> is the token
  counter of the language model client: \<open>None\<close> when the client is of neither known class
  or its counter throws, which sends \<^verbatim>\<open>_countTextTokens\<close> to its fallback. The ratio
  \<^verbatim>\<open>ESTIMATED_TOKENS_PER_CHARACTER\<close> is a positive integer (with 0 the source divides by
  zero and counts \<^verbatim>\<open>Infinity\<close> or \<^verbatim>\<open>NaN\<close>, which no integer stands for).
\<close>

record MessageManager =
  llm :: "string \<Rightarrow> int option"
  history :: MessageHistory
  maxInputTokens :: int
  ESTIMATED_TOKENS_PER_CHARACTER :: nat
  IMG_TOKENS :: int
  includeAttributes :: "string list"
  maxErrorLength :: nat
  task :: string
  systemPrompt :: Message

text \<open>\<^verbatim>\<open>MessageManager._countTextTokens\<close> and \<^verbatim>\<open>_countTokens\<close>.\<close>

definition countTextTokens :: "MessageManager \<Rightarrow> string \<Rightarrow> int" where
  "countTextTokens mm txt =
     (case llm mm txt of
        Some n \<Rightarrow> n
      | None \<Rightarrow> int (length txt div ESTIMATED_TOKENS_PER_CHARACTER mm))"

definition countTokens :: "MessageManager \<Rightarrow> Message \<Rightarrow> int" where
  "countTokens mm msg =
     (case content msg of
        ArrayContent items \<Rightarrow>
          foldl (\<lambda>tokens item.
                   if image_url item \<noteq> None then tokens + IMG_TOKENS mm
                   else (case part_text item of
                           Some t \<Rightarrow> tokens + countTextTokens mm t
                         | None \<Rightarrow> tokens))
            0 items
      | StringContent s \<Rightarrow> 0 + countTextTokens mm s)"

text \<open>\<^verbatim>\<open>MessageManager._addMessageWithTokens\<close>.\<close>

definition addMessageWithTokens :: "MessageManager \<Rightarrow> Message \<Rightarrow> MessageManager" where
  "addMessageWithTokens mm msg =
     (let tokenCount = countTokens mm msg;
          md = \<lparr>inputTokens = tokenCount\<rparr>
      in mm\<lparr>history :=
              \<lparr>messages = messages (history mm) @ [\<lparr>message = msg, metadata = md\<rparr>],
               totalTokens = totalTokens (history mm) + tokenCount\<rparr>\<rparr>)"

text \<open>
  \<^verbatim>\<open>MessageManager._removeMessage(index = -1)\<close>. The message is read with
  \<^verbatim>\<open>this.history.messages[index]\<close>: an array has no element at a negative index or at one
  past its end, the read gives \<^verbatim>\<open>undefined\<close>, and \<^verbatim>\<open>msg.metadata\<close> throws a \<^verbatim>\<open>TypeError\<close>
  before anything is changed. With an index in range the total is lowered by the message's
  count and \<^verbatim>\<open>splice(index, 1)\<close> takes the message out.
\<close>

definition removeMessage :: "MessageManager \<Rightarrow> int \<Rightarrow> (exn + unit) \<times> MessageManager" where
  "removeMessage mm index =
     (if 0 \<le> index \<and> index < int (length (messages (history mm)))
      then (let msg = messages (history mm) ! nat index
            in (Inr (),
                mm\<lparr>history :=
                     \<lparr>messages = take (nat index) (messages (history mm)) @
                                   drop (Suc (nat index)) (messages (history mm)),
                      totalTokens = totalTokens (history mm) - inputTokens (metadata msg)\<rparr>\<rparr>))
      else (Inl (TypeError ''Cannot read properties of undefined (reading 'metadata')''), mm))"

text \<open>
  \<^verbatim>\<open>MessageManager._removeLastStateMessage\<close>: under its guard it calls
  \<^verbatim>\<open>this._removeMessage()\<close>, that is with the default index \<open>-1\<close>.
\<close>

definition removeLastStateMessage :: "MessageManager \<Rightarrow> (exn + unit) \<times> MessageManager" where
  "removeLastStateMessage mm =
     (if length (messages (history mm)) > 2 \<and>
         role (message (last (messages (history mm)))) = ''user''
      then removeMessage mm (- 1)
      else (Inr (), mm))"

text \<open>\<^verbatim>\<open>MessageManager.addModelOutput\<close>, given \<^verbatim>\<open>JSON.stringify(modelOutput)\<close>.\<close>

definition addModelOutput :: "MessageManager \<Rightarrow> string \<Rightarrow> MessageManager" where
  "addModelOutput mm json = addMessageWithTokens mm \<lparr>role = ''assistant'', content = StringContent json\<rparr>"

text \<open>
  The constructor: an empty history, then the system message (what the injected prompt
  class returns from \<^verbatim>\<open>getSystemMessage\<close>) and the task message.
\<close>

definition newMessageManager ::
  "(string \<Rightarrow> int option) \<Rightarrow> string \<Rightarrow> Message \<Rightarrow> int \<Rightarrow> nat \<Rightarrow> int \<Rightarrow> string list \<Rightarrow> nat \<Rightarrow>
   MessageManager" where
  "newMessageManager llm_counter tsk systemMessage maxTokens perChar imageTokens attrs maxErr =
     (let this = \<lparr>llm = llm_counter, history = \<lparr>messages = [], totalTokens = 0\<rparr>,
                  maxInputTokens = maxTokens, ESTIMATED_TOKENS_PER_CHARACTER = perChar,
                  IMG_TOKENS = imageTokens, includeAttributes = attrs, maxErrorLength = maxErr,
                  task = tsk, systemPrompt = systemMessage\<rparr>;
          this1 = addMessageWithTokens this systemMessage;
          taskMessage = \<lparr>role = ''user'', content = StringContent (''Your task is: '' @ tsk)\<rparr>
      in addMessageWithTokens this1 taskMessage)"

text \<open>
  \<^verbatim>\<open>String.prototype.slice\<close> with one negative argument (the last \<open>n\<close> characters;
  \<^verbatim>\<open>slice(-0)\<close> is the whole string) and \<^verbatim>\<open>slice(0, end)\<close>, where a negative \<open>end\<close> counts
  from the end of the string.
\<close>

definition slice_last :: "nat \<Rightarrow> string \<Rightarrow> string" where
  "slice_last n s = (if n = 0 then s else drop (length s - n) s)"

definition slice_to :: "int \<Rightarrow> string \<Rightarrow> string" where
  "slice_to e s = (if e < 0 then take (nat (int (length s) + e)) s else take (nat e) s)"

text \<open>
  The first part of \<^verbatim>\<open>cutMessages\<close>: the loop over the parts of the newest message. Each
  part with an image lowers the message's count and the total by \<^verbatim>\<open>IMG_TOKENS\<close>; the
  texts of the other parts are concatenated. The loop state is the text so far, the
  message's count and the total. (The array the loop filters is replaced by the text
  right after the loop.)
\<close>

definition drop_images_step :: "int \<Rightarrow> string \<times> int \<times> int \<Rightarrow> ContentPart \<Rightarrow> string \<times> int \<times> int" where
  "drop_images_step img st item =
     (case st of (txt, tokens, tot) \<Rightarrow>
        if image_url item \<noteq> None then (txt, tokens - img, tot - img)
        else (case part_text item of
                Some t \<Rightarrow> (txt @ t, tokens, tot)
              | None \<Rightarrow> (txt, tokens, tot)))"

definition drop_images :: "MessageManager \<Rightarrow> MessageManager" where
  "drop_images mm =
     (let lastMsg = last (messages (history mm)) in
      case content (message lastMsg) of
        StringContent s \<Rightarrow> mm
      | ArrayContent items \<Rightarrow>
          (case foldl (drop_images_step (IMG_TOKENS mm))
                  ([], inputTokens (metadata lastMsg), totalTokens (history mm)) items of
             (txt, tokens, tot) \<Rightarrow>
               mm\<lparr>history :=
                    \<lparr>messages = butlast (messages (history mm)) @
                       [\<lparr>message = (message lastMsg)\<lparr>content := StringContent txt\<rparr>,
                         metadata = \<lparr>inputTokens = tokens\<rparr>\<rparr>],
                     totalTokens = tot\<rparr>\<rparr>))"

text \<open>
  The test \<^verbatim>\<open>proportionToRemove > 0.99\<close> for \<^verbatim>\<open>proportionToRemove = diff / tokens\<close>, in
  exact arithmetic: a positive \<open>diff\<close> over 0 is \<^verbatim>\<open>Infinity\<close>. The number of characters to
  remove is \<^verbatim>\<open>Math.floor(content.length * proportionToRemove)\<close>, likewise exact. (The
  source computes both in floating point, which agrees with the exact values up to
  rounding in the last digit.) The overflow error's message ends with the proportion,
  written here as the fraction it is computed from.
\<close>

definition proportion_exceeds :: "int \<Rightarrow> int \<Rightarrow> bool" where
  "proportion_exceeds diff tokens =
     (if tokens = 0 then 0 < diff
      else if 0 < tokens then 99 * tokens < 100 * diff
      else 100 * diff < 99 * tokens)"

definition charactersToRemove :: "nat \<Rightarrow> int \<Rightarrow> int \<Rightarrow> int" where
  "charactersToRemove len diff tokens = (int len * diff) div tokens"

definition overflow_message :: "int \<Rightarrow> int \<Rightarrow> string" where
  "overflow_message diff tokens =
     ''Max token limit reached - history is too long - reduce the system prompt or task less tasks or remove old messages. proportion_to_remove: '' @
     number_string diff @ ''/'' @ number_string tokens"

text \<open>
  \<^verbatim>\<open>MessageManager.cutMessages\<close>. \<open>diff\<close> is computed once, before the images are dropped,
  and is used again for the proportion. The trimmed message is to replace the newest one
  by \<^verbatim>\<open>this._removeMessage()\<close> followed by \<^verbatim>\<open>_addMessageWithTokens\<close>. On an empty history
  the read of the newest message throws.
\<close>

definition cutMessages :: "MessageManager \<Rightarrow> (exn + unit) \<times> MessageManager" where
  "cutMessages mm =
     (let diff = totalTokens (history mm) - maxInputTokens mm in
      if diff \<le> 0 then (Inr (), mm)
      else if messages (history mm) = []
      then (Inl (TypeError ''Cannot read properties of undefined (reading 'message')''), mm)
      else
        (let mm1 = drop_images mm;
             lastMsg = last (messages (history mm1))
         in if totalTokens (history mm1) - maxInputTokens mm1 \<le> 0 then (Inr (), mm1)
            else if proportion_exceeds diff (inputTokens (metadata lastMsg))
            then (Inl (Error (overflow_message diff (inputTokens (metadata lastMsg)))), mm1)
            else
              (let cont = (case content (message lastMsg) of
                             StringContent s \<Rightarrow> s
                           | ArrayContent items \<Rightarrow> []);
                   n = charactersToRemove (length cont) diff (inputTokens (metadata lastMsg));
                   newContent = slice_to (- n) cont
               in case removeMessage mm1 (- 1) of
                    (Inl e, mm2) \<Rightarrow> (Inl e, mm2)
                  | (Inr u, mm2) \<Rightarrow>
                      (Inr (), addMessageWithTokens mm2
                                 \<lparr>role = ''user'', content = StringContent newContent\<rparr>))))"

text \<open>\<^verbatim>\<open>MessageManager.getMessages\<close>.\<close>

definition getMessages :: "MessageManager \<Rightarrow> (exn + Message list) \<times> MessageManager" where
  "getMessages mm =
     (case cutMessages mm of
        (Inl e, mm') \<Rightarrow> (Inl e, mm')
      | (Inr u, mm') \<Rightarrow> (Inr (map message (messages (history mm'))), mm'))"

text \<open>The invariant of the history: the running total is the sum of the records' counts.\<close>

definition history_ok :: "MessageHistory \<Rightarrow> bool" where
  "history_ok h = (totalTokens h = sum_list (map (\<lambda>m. inputTokens (metadata m)) (messages h)))"

text \<open>The sum of the token counts of a list of records.\<close>

definition tokens_sum :: "ManagedMessage list \<Rightarrow> int" where
  "tokens_sum ms = sum_list (map (\<lambda>m. inputTokens (metadata m)) ms)"


text \<open>
  Example managers with the fallback token counter (3 characters to a token) and 800
  tokens to an image: the system message costs 5 tokens and the task message 9. On top of
  them, \<open>with_state\<close> has a state message of 3000 characters (1000 tokens) and
  \<open>with_image\<close> the same message with a screenshot (1800 tokens).
\<close>

definition example_manager :: "int \<Rightarrow> MessageManager" where
  "example_manager budget =
     newMessageManager (\<lambda>t. None) ''book a flight''
       \<lparr>role = ''system'', content = StringContent ''You are an agent''\<rparr> budget 3 800 [] 400"

definition with_state :: "int \<Rightarrow> MessageManager" where
  "with_state budget =
     addMessageWithTokens (example_manager budget)
       \<lparr>role = ''user'', content = StringContent (replicate 3000 CHR ''x'')\<rparr>"

definition with_image :: "int \<Rightarrow> MessageManager" where
  "with_image budget =
     addMessageWithTokens (example_manager budget)
       \<lparr>role = ''user'',
        content = ArrayContent
          [\<lparr>image_url = None, part_text = Some (replicate 3000 CHR ''x'')\<rparr>,
           \<lparr>image_url = Some ''data:image/png;base64,AAAA'', part_text = None\<rparr>]\<rparr>"


section \<open>The state message\<close>

text \<open>
  \<^verbatim>\<open>BrowserState\<close>: a DOM state with the page's url and title, the tab list (as
  \<^verbatim>\<open>JSON.stringify(tabs, null, 2)\<close> renders it) and an optional screenshot.
\<close>

record BrowserState = DOMState +
  url :: string
  title :: string
  tabs :: string
  screenshot :: "string option"

record AgentStepInfo =
  stepNumber :: nat
  maxSteps :: nat

text \<open>
  \<^verbatim>\<open>MessageManager.addStateMessage\<close>. The loop over the earlier results adds the content
  and the error of every result kept in memory as messages of their own and then sets
  \<^verbatim>\<open>result\<close> to \<^verbatim>\<open>null\<close>; the loop itself goes on over the array it started with. The
  state message is then to be built by \<^verbatim>\<open>new AgentMessagePrompt(...)\<close>; the module of the
  manager imports the two model clients only and has no binding of that name, so the
  expression throws a \<^verbatim>\<open>ReferenceError\<close>, and no state message is added.
\<close>

definition remember_result ::
  "MessageManager \<times> ActionResult list option \<Rightarrow> ActionResult \<Rightarrow>
   MessageManager \<times> ActionResult list option" where
  "remember_result st r =
     (case st of (mm, results) \<Rightarrow>
        if truthy_bool (includeInMemory r)
        then (let mm1 = if_truthy (extractedContent r)
                          (\<lambda>c. addMessageWithTokens mm \<lparr>role = ''user'', content = StringContent c\<rparr>)
                          mm;
                  mm2 = if_truthy (error r)
                          (\<lambda>err. addMessageWithTokens mm1
                                   \<lparr>role = ''user'',
                                    content = StringContent (slice_last (maxErrorLength mm1) err)\<rparr>)
                          mm1
              in (mm2, None))
        else (mm, results))"

definition addStateMessage ::
  "MessageManager \<Rightarrow> BrowserState \<Rightarrow> ActionResult list option \<Rightarrow> AgentStepInfo option \<Rightarrow>
   (exn + unit) \<times> MessageManager" where
  "addStateMessage mm state results stepInfo =
     (case (case results of
              None \<Rightarrow> (mm, None)
            | Some rs \<Rightarrow> foldl remember_result (mm, Some rs) rs) of
        (mm1, results1) \<Rightarrow>
          (Inl (ReferenceError ''AgentMessagePrompt is not defined''), mm1))"


section \<open>Agent orchestrator\<close>

text \<open>\<^verbatim>\<open>String.prototype.includes\<close>.\<close>

fun string_includes :: "string \<Rightarrow> string \<Rightarrow> bool" where
  "string_includes [] sub = (sub = [])"
| "string_includes (c # cs) sub = (take (length sub) (c # cs) = sub \<or> string_includes cs sub)"

text \<open>
  \<^verbatim>\<open>AgentOutput\<close>, the parsed answer of the model, and the items of the run history.
\<close>

record 'p AgentOutput =
  current_state :: string
  action :: "(string \<times> 'p) list list"

record StateHistory =
  hist_url :: string
  hist_title :: string
  hist_tabs :: string
  interactedElements :: "DOMNode option list"
  hist_screenshot :: "string option"

record 'p AgentHistory =
  hist_modelOutput :: "'p AgentOutput option"
  hist_result :: "ActionResult list"
  hist_state :: StateHistory

text \<open>
  What a step calls outside the agent: the browser context's \<^verbatim>\<open>getState\<close>, the request
  to the language model with the parsing of its answer, \<^verbatim>\<open>JSON.stringify\<close> of a model
  output, the two uses of \<^verbatim>\<open>chrome.storage\<close> and \<^verbatim>\<open>fetch\<close> (saving the conversation,
  telemetry), the \<^verbatim>\<open>index\<close> property of an action's parameters, and for error reports the
  stack of an exception and \<^verbatim>\<open>console.debugEnabled\<close>.
\<close>

record ('p, 'w) Environment =
  getState :: "bool \<Rightarrow> 'w \<Rightarrow> (exn + BrowserState) \<times> 'w"
  callModel :: "Message list \<Rightarrow> 'w \<Rightarrow> (exn + 'p AgentOutput) \<times> 'w"
  stringify :: "'p AgentOutput \<Rightarrow> string"
  storeConversation :: "Message list \<Rightarrow> 'p AgentOutput \<Rightarrow> 'w \<Rightarrow> (exn + unit) \<times> 'w"
  captureTelemetry :: "string \<Rightarrow> 'w \<Rightarrow> (exn + unit) \<times> 'w"
  paramIndex :: "'p \<Rightarrow> int option"
  stackOf :: "exn \<Rightarrow> string"
  debugEnabled :: bool

text \<open>
  The fields of an \<^verbatim>\<open>Agent\<close> a step reads or writes. \<open>agent_maxInputTokens\<close> and
  \<open>agent_history\<close> are the agent's \<^verbatim>\<open>maxInputTokens\<close> and \<^verbatim>\<open>history\<close>.
\<close>

record ('p, 'v, 'b, 'w) Agent =
  useVision :: bool
  saveConversationPath :: "string option"
  lastResult :: "ActionResult list option"
  controller :: "('p, 'v, 'b, 'w) ActionRegistry"
  browserContext :: 'b
  messageManager :: MessageManager
  agent_maxInputTokens :: int
  agent_history :: "'p AgentHistory list"
  nSteps :: nat
  consecutiveFailures :: nat
  maxFailures :: nat
  retryDelay :: nat
  maxActionsPerStep :: nat

text \<open>
  Where a step stands: the agent, the outside world, and the local variables \<^verbatim>\<open>state\<close>,
  \<^verbatim>\<open>modelOutput\<close> and \<^verbatim>\<open>result\<close> of \<^verbatim>\<open>step\<close>, which its \<^verbatim>\<open>finally\<close> block reads.
\<close>

record ('p, 'v, 'b, 'w) Frame =
  agent :: "('p, 'v, 'b, 'w) Agent"
  world :: 'w
  state :: "BrowserState option"
  modelOutput :: "'p AgentOutput option"
  result :: "ActionResult list"

text \<open>\<^verbatim>\<open>Agent.getNextAction\<close>: the model's answer, cut to the maximum number of actions.\<close>

definition getNextAction ::
  "('p, 'w) Environment \<Rightarrow> ('p, 'v, 'b, 'w) Agent \<Rightarrow> Message list \<Rightarrow> 'w \<Rightarrow>
   (exn + 'p AgentOutput) \<times> 'w" where
  "getNextAction env a inputMessages w =
     (case callModel env inputMessages w of
        (Inl e, w') \<Rightarrow> (Inl e, w')
      | (Inr response, w') \<Rightarrow>
          (Inr (response\<lparr>action := take (maxActionsPerStep a) (action response)\<rparr>), w'))"

text \<open>\<^verbatim>\<open>Agent._saveConversation\<close>.\<close>

definition saveConversation ::
  "('p, 'w) Environment \<Rightarrow> ('p, 'v, 'b, 'w) Agent \<Rightarrow> Message list \<Rightarrow> 'p AgentOutput \<Rightarrow> 'w \<Rightarrow>
   (exn + unit) \<times> 'w" where
  "saveConversation env a msgs response w =
     (if \<not> truthy_string (saveConversationPath a) then (Inr (), w)
      else storeConversation env msgs response w)"

text \<open>
  The \<^verbatim>\<open>try\<close> block of \<^verbatim>\<open>Agent.step\<close>, statement by statement. A throw leaves the block
  with the exception and the frame as it stands; the last statements set \<^verbatim>\<open>lastResult\<close>
  and reset the counter of consecutive failures.
\<close>

definition try_block ::
  "('p, 'w) Environment \<Rightarrow> AgentStepInfo option \<Rightarrow> ('p, 'v, 'b, 'w) Agent \<Rightarrow> 'w \<Rightarrow>
   exn option \<times> ('p, 'v, 'b, 'w) Frame" where
  "try_block env stepInfo a w =
     (case getState env (useVision a) w of
        (Inl e, w1) \<Rightarrow>
          (Some e, \<lparr>agent = a, world = w1, state = None, modelOutput = None, result = []\<rparr>)
      | (Inr st, w1) \<Rightarrow>
     (case addStateMessage (messageManager a) st (lastResult a) stepInfo of
        (Inl e, mm1) \<Rightarrow>
          (Some e, \<lparr>agent = a\<lparr>messageManager := mm1\<rparr>, world = w1, state = Some st,
                     modelOutput = None, result = []\<rparr>)
      | (Inr u1, mm1) \<Rightarrow>
     (case getMessages mm1 of
        (Inl e, mm2) \<Rightarrow>
          (Some e, \<lparr>agent = a\<lparr>messageManager := mm2\<rparr>, world = w1, state = Some st,
                     modelOutput = None, result = []\<rparr>)
      | (Inr inputMessages, mm2) \<Rightarrow>
     (case getNextAction env a inputMessages w1 of
        (Inl e, w2) \<Rightarrow>
          (Some e, \<lparr>agent = a\<lparr>messageManager := mm2\<rparr>, world = w2, state = Some st,
                     modelOutput = None, result = []\<rparr>)
      | (Inr mo, w2) \<Rightarrow>
     (case saveConversation env a inputMessages mo w2 of
        (Inl e, w3) \<Rightarrow>
          (Some e, \<lparr>agent = a\<lparr>messageManager := mm2\<rparr>, world = w3, state = Some st,
                     modelOutput = Some mo, result = []\<rparr>)
      | (Inr u2, w3) \<Rightarrow>
     (case removeLastStateMessage mm2 of
        (Inl e, mm3) \<Rightarrow>
          (Some e, \<lparr>agent = a\<lparr>messageManager := mm3\<rparr>, world = w3, state = Some st,
                     modelOutput = Some mo, result = []\<rparr>)
      | (Inr u3, mm3) \<Rightarrow>
     (let mm4 = addModelOutput mm3 (stringify env mo) in
      case multiAct (controller a) (action mo) (Some (browserContext a)) w3 of
        (Inl e, w4) \<Rightarrow>
          (Some e, \<lparr>agent = a\<lparr>messageManager := mm4\<rparr>, world = w4, state = Some st,
                     modelOutput = Some mo, result = []\<rparr>)
      | (Inr res, w4) \<Rightarrow>
          (None, \<lparr>agent = a\<lparr>messageManager := mm4, lastResult := Some res,
                             consecutiveFailures := 0\<rparr>,
                   world = w4, state = Some st, modelOutput = Some mo, result = res\<rparr>))))))))"

text \<open>
  \<^verbatim>\<open>Agent._formatError\<close>: \<^verbatim>\<open>error.message || String(error)\<close>, with the stack when asked for.
  \<^verbatim>\<open>String\<close> of an \<^verbatim>\<open>Error\<close> object is its name, a colon and its message, or the one of the
  two that is not empty; of another object it is \<^verbatim>\<open>[object Object]\<close>.
\<close>

definition error_string :: "exn \<Rightarrow> string" where
  "error_string e =
     (if \<not> exn_is_error e then ''[object Object]''
      else if exn_name e = [] then exn_message e
      else if exn_message e = [] then exn_name e
      else exn_name e @ '': '' @ exn_message e)"

definition formatError :: "('p, 'w) Environment \<Rightarrow> exn \<Rightarrow> bool \<Rightarrow> string" where
  "formatError env e includeTrace =
     (let msg = (if exn_message e \<noteq> [] then exn_message e else error_string e)
      in if includeTrace then msg @ [CHR 0x0A] @ stackOf env e else msg)"

text \<open>
  \<^verbatim>\<open>Agent._handleStepError\<close>. Every branch increments the counter; the first one, for an
  \<^verbatim>\<open>Error\<close> object whose message contains \<^verbatim>\<open>validation failed\<close>, lowers the manager's
  budget to the agent's own minus 500 and trims again when the message also contains
  \<^verbatim>\<open>Max token limit reached\<close>, and a throw of the trimming leaves the handler before the
  increment.
\<close>

definition handleStepError ::
  "('p, 'w) Environment \<Rightarrow> ('p, 'v, 'b, 'w) Agent \<Rightarrow> exn \<Rightarrow>
   (exn + ActionResult list) \<times> ('p, 'v, 'b, 'w) Agent" where
  "handleStepError env a e =
     (let includeTrace = debugEnabled env;
          errorMsg = formatError env e includeTrace;
          errorResult = [\<lparr>error = Some errorMsg, extractedContent = None,
                           includeInMemory = Some True, isDone = None\<rparr>]
      in if exn_is_error e \<and> string_includes (exn_message e) ''validation failed''
         then (if string_includes (exn_message e) ''Max token limit reached''
               then (case cutMessages
                            ((messageManager a)\<lparr>maxInputTokens := agent_maxInputTokens a - 500\<rparr>) of
                       (Inl e', mm') \<Rightarrow> (Inl e', a\<lparr>messageManager := mm'\<rparr>)
                     | (Inr u, mm') \<Rightarrow>
                         (Inr errorResult,
                          a\<lparr>messageManager := mm',
                            consecutiveFailures := consecutiveFailures a + 1\<rparr>))
               else (Inr errorResult, a\<lparr>consecutiveFailures := consecutiveFailures a + 1\<rparr>))
         else if exn_name e = ''RateLimitError''
         then (Inr errorResult, a\<lparr>consecutiveFailures := consecutiveFailures a + 1\<rparr>)
         else (Inr errorResult, a\<lparr>consecutiveFailures := consecutiveFailures a + 1\<rparr>))"

text \<open>\<^verbatim>\<open>Agent._getInteractedElements\<close> and \<^verbatim>\<open>_makeHistoryItem\<close>.\<close>

definition getInteractedElements ::
  "('p, 'w) Environment \<Rightarrow> 'p AgentOutput \<Rightarrow> (int \<rightharpoonup> DOMNode) \<Rightarrow> DOMNode list" where
  "getInteractedElements env mo selMap =
     concat (map (\<lambda>a. case a of
                        [] \<Rightarrow> []
                      | (actionName, params) # _ \<Rightarrow>
                          (case paramIndex env params of
                             None \<Rightarrow> []
                           | Some i \<Rightarrow>
                               if i = 0 then []
                               else (case selMap i of None \<Rightarrow> [] | Some el \<Rightarrow> [el])))
                 (action mo))"

definition makeHistoryItem ::
  "('p, 'w) Environment \<Rightarrow> ('p, 'v, 'b, 'w) Agent \<Rightarrow> 'p AgentOutput option \<Rightarrow> BrowserState \<Rightarrow>
   ActionResult list \<Rightarrow> ('p, 'v, 'b, 'w) Agent" where
  "makeHistoryItem env a mo st res =
     (let interacted = (case mo of
                          Some m \<Rightarrow> map Some (getInteractedElements env m (selectorMap st))
                        | None \<Rightarrow> [None]);
          stateHistory = \<lparr>hist_url = url st, hist_title = title st, hist_tabs = tabs st,
                          interactedElements = interacted, hist_screenshot = screenshot st\<rparr>;
          historyItem = \<lparr>hist_modelOutput = mo, hist_result = res, hist_state = stateHistory\<rparr>
      in a\<lparr>agent_history := agent_history a @ [historyItem]\<rparr>)"

text \<open>
  The \<^verbatim>\<open>finally\<close> block of \<^verbatim>\<open>step\<close>, entered with the exception that is still pending, if
  any. With no result it returns, which discards a pending exception. Otherwise it sends
  telemetry for every result with an error (a throw there leaves the step) and records the
  history item when the state was read.
\<close>

fun telemetry_loop ::
  "('p, 'w) Environment \<Rightarrow> ActionResult list \<Rightarrow> 'w \<Rightarrow> (exn + unit) \<times> 'w" where
  "telemetry_loop env [] w = (Inr (), w)"
| "telemetry_loop env (r # rs) w =
     if_truthy (error r)
       (\<lambda>err. case captureTelemetry env err w of
                (Inl e, w') \<Rightarrow> (Inl e, w')
              | (Inr u, w') \<Rightarrow> telemetry_loop env rs w')
       (telemetry_loop env rs w)"

definition finally_block ::
  "('p, 'w) Environment \<Rightarrow> exn option \<Rightarrow> ('p, 'v, 'b, 'w) Frame \<Rightarrow>
   exn option \<times> ('p, 'v, 'b, 'w) Frame" where
  "finally_block env pending f =
     (if result f = [] then (None, f)
      else (case telemetry_loop env (result f) (world f) of
              (Inl e, w') \<Rightarrow> (Some e, f\<lparr>world := w'\<rparr>)
            | (Inr u, w') \<Rightarrow>
                (pending,
                 (case state f of
                    None \<Rightarrow> f\<lparr>world := w'\<rparr>
                  | Some st \<Rightarrow>
                      f\<lparr>world := w',
                        agent := makeHistoryItem env (agent f) (modelOutput f) st (result f)\<rparr>))))"

text \<open>
  \<^verbatim>\<open>Agent.step\<close>: the \<^verbatim>\<open>try\<close> block; on a throw the handler, whose result becomes the
  step's result and the agent's \<^verbatim>\<open>lastResult\<close>; at the end the \<^verbatim>\<open>finally\<close> block. The
  outcome is the exception the step rejects with, if any, and the final frame.
\<close>

definition step ::
  "('p, 'w) Environment \<Rightarrow> AgentStepInfo option \<Rightarrow> ('p, 'v, 'b, 'w) Agent \<Rightarrow> 'w \<Rightarrow>
   exn option \<times> ('p, 'v, 'b, 'w) Frame" where
  "step env stepInfo a w =
     (case try_block env stepInfo a w of
        (None, f) \<Rightarrow> finally_block env None f
      | (Some e, f) \<Rightarrow>
          (case handleStepError env (agent f) e of
             (Inr res, a') \<Rightarrow>
               finally_block env None (f\<lparr>agent := a'\<lparr>lastResult := Some res\<rparr>, result := res\<rparr>)
           | (Inl e', a') \<Rightarrow> finally_block env (Some e') (f\<lparr>agent := a'\<rparr>)))"


text \<open>
  An example run. The page is a single indexed button with no text; the manager's budget
  and the agent's are 520 tokens; the system message costs 100 tokens and the task message
  9; two steps have failed already. The browser context's \<^verbatim>\<open>getState\<close> has the given
  outcome, and the world logs the telemetry sent.
\<close>

definition bare_button :: DOMNode where
  "bare_button =
     DOMElementNode ''button'' ''/button'' [(''id'', ''go'')] [] True True True (Some 0) False"

definition example_browser_state :: BrowserState where
  "example_browser_state =
     \<lparr>elementTree = bare_button, selectorMap = createSelectorMap bare_button,
      url = ''https://example.com'', title = ''Example'', tabs = ''[]'', screenshot = None\<rparr>"

definition example_env :: "exn + BrowserState \<Rightarrow> (string, string list) Environment" where
  "example_env outcome =
     \<lparr>getState = (\<lambda>vision w. (outcome, w)),
      callModel = (\<lambda>msgs w. (Inr \<lparr>current_state = ''{}'', action = [[(''done'', ''ok'')]]\<rparr>, w)),
      stringify = (\<lambda>mo. ''{}''),
      storeConversation = (\<lambda>msgs mo w. (Inr (), w)),
      captureTelemetry = (\<lambda>err w. (Inr (), w @ [err])),
      paramIndex = (\<lambda>p. None),
      stackOf = (\<lambda>e. []),
      debugEnabled = False\<rparr>"

definition example_agent :: "(string, string, unit, string list) Agent" where
  "example_agent =
     \<lparr>useVision = False, saveConversationPath = None, lastResult = None,
      controller = example_registry, browserContext = (),
      messageManager =
        newMessageManager (\<lambda>t. None) ''book a flight''
          \<lparr>role = ''system'', content = StringContent (replicate 300 CHR ''s'')\<rparr>
          520 3 800 [] 400,
      agent_maxInputTokens = 520, agent_history = [], nSteps = 1, consecutiveFailures = 2,
      maxFailures = 5, retryDelay = 10, maxActionsPerStep = 10\<rparr>"




section \<open>Sequencing and short-circuiting of the dispatcher\<close>

lemma exec_in_order_length:
  "exec_in_order actions as browser w = (Inr rs, w') \<Longrightarrow> length rs = length as"
  by (induction as arbitrary: rs w) (auto split: prod.splits sum.splits)

lemma multiAct_loop_first_stop:
  "exec_in_order actions as browser w = (Inr rs, w') \<Longrightarrow> as \<noteq> [] \<Longrightarrow>
   \<forall>i < length as - 1. \<not> stops (rs ! i) \<Longrightarrow> stops (rs ! (length as - 1)) \<Longrightarrow>
   multiAct_loop actions (as @ later) browser acc w = (Inr (acc @ rs), w')"
proof (induction as arbitrary: rs w acc)
  case Nil
  then show ?case by simp
next
  case (Cons a as)
  from Cons.prems(1) obtain r w1 rs1 where
    a: "act actions a browser w = (Inr r, w1)" and
    rest: "exec_in_order actions as browser w1 = (Inr rs1, w')" and
    rs: "rs = r # rs1"
    by (auto split: prod.splits sum.splits)
  show ?case
  proof (cases "as = []")
    case True
    with rest have "rs1 = []" by simp
    with Cons.prems True rs a show ?thesis by simp
  next
    case False
    then have pos: "0 < length as" by simp
    from Cons.prems(3) rs pos have nostop: "\<not> stops r" by fastforce
    have later: "\<forall>i < length as - 1. \<not> stops (rs1 ! i)"
    proof (intro allI impI)
      fix i assume "i < length as - 1"
      then have "Suc i < length (a # as) - 1" by simp
      with Cons.prems(3) have "\<not> stops (rs ! Suc i)" by blast
      with rs show "\<not> stops (rs1 ! i)" by simp
    qed
    from Cons.prems(4) rs pos have last: "stops (rs1 ! (length as - 1))"
      by (cases "length as") auto
    from Cons.IH [OF rest False later last, of "acc @ [r]"] a nostop rs
    show ?thesis by simp
  qed
qed

text \<open>
  Claim C1. Let the first \<open>k\<close> actions of the list, executed in the caller's order, produce
  the results \<open>rs\<close> and leave the world \<open>w'\<close>, and let action \<open>k\<close> be the first whose result
  carries \<^verbatim>\<open>error\<close> or \<^verbatim>\<open>isDone\<close> (as the loop tests them: a non-empty error string, or
  \<^verbatim>\<open>isDone\<close> true). Then \<open>multiAct\<close> returns exactly these \<open>k\<close> results in execution
  order and leaves the world as action \<open>k\<close> left it; whatever actions follow the first \<open>k\<close>
  are not invoked, since the outcome is the same for every continuation of the list.
\<close>

theorem multiAct_stops_at_first:
  assumes "0 < k" and "k \<le> length as"
    and "exec_in_order actions (take k as) browser w = (Inr rs, w')"
    and "\<forall>i < k - 1. \<not> stops (rs ! i)"
    and "stops (rs ! (k - 1))"
  shows "multiAct actions as browser w = (Inr rs, w') \<and> length rs = k \<and>
         (\<forall>later. multiAct actions (take k as @ later) browser w = (Inr rs, w'))"
proof -
  from assms(1,2) have ne: "take k as \<noteq> []" and len: "length (take k as) = k" by auto
  have run: "multiAct_loop actions (take k as @ later) browser [] w = (Inr ([] @ rs), w')" for later
    using multiAct_loop_first_stop [OF assms(3) ne] assms(4,5) len by simp
  from run [of "drop k as"] have "multiAct actions as browser w = (Inr rs, w')"
    by (simp add: multiAct_def)
  moreover from exec_in_order_length [OF assms(3)] len have "length rs = k" by simp
  moreover from run have "\<forall>later. multiAct actions (take k as @ later) browser w = (Inr rs, w')"
    by (simp add: multiAct_def)
  ultimately show ?thesis by blast
qed

lemmas example_defs = example_actions_def example_registry_def example_results_def example_model_def example_click_def
  example_done_def registry_action_def act_def executeAction_def object_prototype_keys_def executeWithResult_def Error_def stops_def
  truthy_string_def truthy_bool_def

theorem multiAct_stops_at_first_witness:
  "multiAct example_registry example_actions (Some ()) [] = (Inr example_results, [''a'', ''b'']) \<and>
   length example_results = 3 \<and>
   (\<forall>later. multiAct example_registry (take 3 example_actions @ later) (Some ()) [] =
      (Inr example_results, [''a'', ''b'']))"
proof -
  have "exec_in_order example_registry (take 3 example_actions) (Some ()) [] = (Inr example_results, [''a'', ''b''])"
    by (simp add: example_defs)
  moreover have "\<forall>i < 3 - 1. \<not> stops (example_results ! i)"
    by (simp add: example_defs less_Suc_eq numeral_2_eq_2)
  moreover have "stops (example_results ! (3 - 1))"
    by (simp add: example_defs)
  moreover have "(3::nat) \<le> length example_actions" by (simp add: example_actions_def)
  ultimately show ?thesis
    using multiAct_stops_at_first [of 3 example_actions example_registry "Some ()" "[]" example_results "[''a'', ''b'']"]
    by simp
qed


section \<open>Which failures the dispatcher throws and which it captures\<close>

lemma executeWithResult_returns:
  "\<exists>r w'. executeWithResult impl w = (Inr r, w')"
  by (auto simp: executeWithResult_def split: prod.splits sum.splits)

lemma executeWithResult_captures:
  "impl w = (Inl e, w') \<Longrightarrow>
   executeWithResult impl w =
     (Inr \<lparr>error = Some (exn_message e), extractedContent = None, includeInMemory = None,
            isDone = None\<rparr>, w')"
  by (simp add: executeWithResult_def)

lemma act_eq: "act actions a browser w = executeAction actions (actionName_of a) (params_of a) browser w"
  by (auto simp: act_def actionName_of_def params_of_def split: list.splits)

lemma act_dispatchable:
  assumes "\<forall>n ra. actions n = Some ra \<longrightarrow> never_throws (func ra)"
    and "dispatchable actions browser a"
  shows "\<exists>r w'. act actions a browser w = (Inr r, w')"
proof -
  from assms(2) obtain ra where ra: "actions (actionName_of a) = Some ra"
    and ok: "validate (paramModel ra) (construct (paramModel ra) (params_of a))"
    and br: "requiresBrowser ra \<longrightarrow> browser \<noteq> None"
    by (auto simp: dispatchable_def split: option.splits)
  from assms(1) ra have nt: "never_throws (func ra)" by blast
  show ?thesis
  proof (cases "requiresBrowser ra")
    case True
    with br obtain b where b: "browser = Some b" by auto
    from nt obtain r w' where
      "func ra (construct (paramModel ra) (params_of a)) (Some b) w = (Inr r, w')"
      unfolding never_throws_def by blast
    with ra ok True b show ?thesis by (simp add: act_eq executeAction_def)
  next
    case False
    from nt obtain r w' where
      "func ra (construct (paramModel ra) (params_of a)) None w = (Inr r, w')"
      unfolding never_throws_def by blast
    with ra ok False show ?thesis by (simp add: act_eq executeAction_def)
  qed
qed

lemma act_not_dispatchable:
  "\<not> dispatchable actions browser a \<Longrightarrow>
   act actions a browser w = (Inl (dispatch_error actions a), w)"
  by (auto simp: act_eq executeAction_def dispatchable_def dispatch_error_def Error_def Let_def
      split: option.splits)

lemma multiAct_loop_returns:
  assumes "\<forall>n ra. actions n = Some ra \<longrightarrow> never_throws (func ra)"
  shows "\<forall>a \<in> set as. dispatchable actions browser a \<Longrightarrow>
         \<exists>rs w'. multiAct_loop actions as browser acc w = (Inr rs, w')"
proof (induction as arbitrary: acc w)
  case Nil
  then show ?case by simp
next
  case (Cons a as)
  from Cons.prems have "dispatchable actions browser a" by simp
  from act_dispatchable [OF assms this] obtain r w1 where
    a: "act actions a browser w = (Inr r, w1)" by blast
  from Cons.prems have "\<forall>a \<in> set as. dispatchable actions browser a" by simp
  from Cons.IH [OF this, of "acc @ [r]" w1] a show ?case by auto
qed

lemma multiAct_loop_throws:
  assumes "\<forall>n ra. actions n = Some ra \<longrightarrow> never_throws (func ra)"
  shows "multiAct_loop actions as browser acc w = (Inl e, w') \<Longrightarrow>
         \<exists>a \<in> set as. \<not> dispatchable actions browser a \<and> e = dispatch_error actions a"
proof (induction as arbitrary: acc w)
  case Nil
  then show ?case by simp
next
  case (Cons a as)
  show ?case
  proof (cases "dispatchable actions browser a")
    case True
    from act_dispatchable [OF assms True] obtain r w1 where
      a: "act actions a browser w = (Inr r, w1)" by blast
    with Cons.prems have "\<not> stops r" and
      "multiAct_loop actions as browser (acc @ [r]) w1 = (Inl e, w')"
      by (auto split: if_splits)
    from Cons.IH [OF this(2)] show ?thesis by auto
  next
    case False
    from act_not_dispatchable [OF False] Cons.prems have "e = dispatch_error actions a"
      by simp
    with False show ?thesis by auto
  qed
qed

text \<open>
  Claim C2, as amended. \<open>multiAct\<close> has no handler of its own. With implementations that
  never throw (each browser action is wrapped in \<^verbatim>\<open>_executeWithResult\<close>, which captures a
  failure inside the implementation as the \<^verbatim>\<open>error\<close> field of the action's result),
  \<open>multiAct\<close> returns a result list whenever every action can be dispatched, and the only
  exceptions it throws to its caller are the registry's own: an unknown action name, a
  parameter validation failure, a missing required browser. Such an action at the head of
  the list makes \<open>multiAct\<close> throw at once.
\<close>

theorem multiAct_throws_dispatch_errors:
  assumes "\<forall>n ra. actions n = Some ra \<longrightarrow> never_throws (func ra)"
  shows "((\<forall>a \<in> set as. dispatchable actions browser a) \<longrightarrow>
            (\<exists>rs w'. multiAct actions as browser (w :: 'w) = (Inr rs, w'))) \<and>
         (\<forall>e w'. multiAct actions as browser w = (Inl e, w') \<longrightarrow>
            (\<exists>a \<in> set as. \<not> dispatchable actions browser a \<and> e = dispatch_error actions a)) \<and>
         (\<forall>a rest. \<not> dispatchable actions browser a \<longrightarrow>
            multiAct actions (a # rest) browser w = (Inl (dispatch_error actions a), w)) \<and>
         (\<forall>impl e w'. impl w = (Inl e, w') \<longrightarrow>
            executeWithResult impl w =
              (Inr \<lparr>error = Some (exn_message e), extractedContent = None,
                     includeInMemory = None, isDone = None\<rparr>, w'))"
proof (intro conjI allI impI)
  assume "\<forall>a \<in> set as. dispatchable actions browser a"
  from multiAct_loop_returns [OF assms this]
  show "\<exists>rs w'. multiAct actions as browser w = (Inr rs, w')"
    by (simp add: multiAct_def)
next
  fix e w'
  assume "multiAct actions as browser w = (Inl e, w')"
  then have "multiAct_loop actions as browser [] w = (Inl e, w')"
    by (simp add: multiAct_def)
  from multiAct_loop_throws [OF assms this]
  show "\<exists>a \<in> set as. \<not> dispatchable actions browser a \<and> e = dispatch_error actions a" .
next
  fix a rest
  assume "\<not> dispatchable actions browser a"
  from act_not_dispatchable [OF this]
  show "multiAct actions (a # rest) browser w = (Inl (dispatch_error actions a), w)"
    by (simp add: multiAct_def)
next
  fix impl :: "'w \<Rightarrow> (exn + ActionResult) \<times> 'w" and e w'
  assume "impl w = (Inl e, w')"
  then show "executeWithResult impl w =
    (Inr \<lparr>error = Some (exn_message e), extractedContent = None,
           includeInMemory = None, isDone = None\<rparr>, w')"
    by (rule executeWithResult_captures)
qed

text \<open>
  Claim C2 as stated fails: an unknown action name, an invalid parameter and a missing
  browser each leave \<open>multiAct\<close> as an exception, not as a result in the returned list.
\<close>

theorem multiAct_throws_counterexample:
  "multiAct example_registry [[(''click'', ''a'')], [(''open_menu'', ''x'')]] (Some ()) [] =
     (Inl (Error ''Action open_menu not found''), [''a'']) \<and>
   multiAct example_registry [[(''click'', '''')]] (Some ()) [] =
     (Inl (Error ''Error executing action click: Invalid parameters for action click''), []) \<and>
   multiAct example_registry [[(''click'', ''a'')]] None [] =
     (Inl (Error ''Error executing action click: Action click requires browser but none provided''), [])"
  by (simp add: multiAct_def example_defs)

lemma example_registry_never_throws:
  "\<forall>n ra. example_registry n = Some ra \<longrightarrow> never_throws (func ra)"
proof (intro allI impI)
  fix n ra
  assume "example_registry n = Some ra"
  then have "func ra = example_click \<or> func ra = example_done"
    by (auto simp: example_registry_def registry_action_def split: if_splits)
  moreover have "never_throws example_click"
    unfolding never_throws_def example_click_def using executeWithResult_returns by fast
  moreover have "never_throws example_done"
    by (simp add: never_throws_def example_done_def)
  ultimately show "never_throws (func ra)" by auto
qed

theorem multiAct_throws_dispatch_errors_witness:
  "list_all (dispatchable example_registry (Some ())) example_actions \<and>
   (\<exists>rs w'. multiAct example_registry example_actions (Some ()) [] = (Inr rs, w')) \<and>
   \<not> dispatchable example_registry None [(''click'', ''a'')] \<and>
   multiAct example_registry [[(''click'', ''a'')], [(''click'', ''b'')]] None [] =
     (Inl (dispatch_error example_registry [(''click'', ''a'')]), [])"
proof -
  have ok: "\<forall>a \<in> set example_actions. dispatchable example_registry (Some ()) a"
    by (simp add: example_defs dispatchable_def actionName_of_def params_of_def)
  have bad: "\<not> dispatchable example_registry None [(''click'', ''a'')]"
    by (simp add: example_defs dispatchable_def actionName_of_def params_of_def)
  from multiAct_throws_dispatch_errors [OF example_registry_never_throws, of example_actions "Some ()" "[]"] ok
  have "\<exists>rs w'. multiAct example_registry example_actions (Some ()) [] = (Inr rs, w')" by blast
  moreover
  from multiAct_throws_dispatch_errors [OF example_registry_never_throws, of "[]" None "[]"] bad
  have "multiAct example_registry [[(''click'', ''a'')], [(''click'', ''b'')]] None [] =
     (Inl (dispatch_error example_registry [(''click'', ''a'')]), [])" by blast
  ultimately show ?thesis using ok bad by (simp add: list_all_iff)
qed

section \<open>The selector map of a snapshot\<close>

lemma foldl_processNode_flat:
  assumes "\<And>c m. c \<in> set cs \<Longrightarrow> processNode m c = foldl store_indexed m (element_nodes c)"
  shows "foldl processNode m cs = foldl store_indexed m (concat (map element_nodes cs))"
  using assms by (induction cs arbitrary: m) simp_all

lemma store_indexed_element:
  "store_indexed m (DOMElementNode tag xp attrs cs vis ia te hi sh) =
     (case hi of None \<Rightarrow> m | Some i \<Rightarrow> m(i \<mapsto> DOMElementNode tag xp attrs cs vis ia te hi sh))"
  by (simp add: store_indexed_def)

lemma processNode_flat:
  "processNode m t = foldl store_indexed m (element_nodes t)"
proof (induction t arbitrary: m)
  case (DOMElementNode tag xp attrs cs vis ia te hi sh)
  have "foldl processNode m' cs = foldl store_indexed m' (concat (map element_nodes cs))" for m'
    by (rule foldl_processNode_flat) (rule DOMElementNode.IH)
  then show ?case by (simp add: store_indexed_element)
next
  case (DOMTextNode t vis)
  then show ?case by simp
qed

lemma dom_store_indexed:
  "dom (store_indexed m e) = dom m \<union> set (List.map_filter highlightIndex [e])"
  by (auto simp: store_indexed_def List.map_filter_simps split: option.splits)

lemma dom_foldl_store:
  "dom (foldl store_indexed m es) = dom m \<union> set (List.map_filter highlightIndex es)"
proof (induction es arbitrary: m)
  case Nil
  then show ?case by (simp add: List.map_filter_simps)
next
  case (Cons x es)
  have "dom (foldl store_indexed (store_indexed m x) es) =
        dom (store_indexed m x) \<union> set (List.map_filter highlightIndex es)"
    by (rule Cons.IH)
  then show ?case
    by (auto simp: dom_store_indexed List.map_filter_simps split: option.splits)
qed

lemma foldl_store_value:
  "foldl store_indexed m es i = Some e \<Longrightarrow>
   m i = Some e \<or> (e \<in> set es \<and> highlightIndex e = Some i)"
proof (induction es arbitrary: m)
  case Nil
  then show ?case by simp
next
  case (Cons x es)
  from Cons.prems have "foldl store_indexed (store_indexed m x) es i = Some e" by simp
  from Cons.IH [OF this] show ?case
    by (auto simp: store_indexed_def split: option.splits if_splits)
qed

lemma foldl_store_absent:
  "i \<notin> set (List.map_filter highlightIndex es) \<Longrightarrow> foldl store_indexed m es i = m i"
proof (induction es arbitrary: m)
  case Nil
  then show ?case by simp
next
  case (Cons x es)
  from Cons.prems have "i \<notin> set (List.map_filter highlightIndex es)"
    and x: "highlightIndex x \<noteq> Some i"
    by (auto simp: List.map_filter_simps split: option.splits)
  from Cons.IH [OF this(1), of "store_indexed m x"] x show ?case
    by (auto simp: store_indexed_def split: option.splits)
qed

lemma foldl_store_distinct:
  "distinct (List.map_filter highlightIndex es) \<Longrightarrow> e \<in> set es \<Longrightarrow> highlightIndex e = Some i \<Longrightarrow>
   foldl store_indexed m es i = Some e"
proof (induction es arbitrary: m)
  case Nil
  then show ?case by simp
next
  case (Cons x es)
  show ?case
  proof (cases "e \<in> set es")
    case True
    from Cons.prems(1) have "distinct (List.map_filter highlightIndex es)"
      by (auto simp: List.map_filter_simps split: option.splits)
    from Cons.IH [OF this True Cons.prems(3), of "store_indexed m x"] show ?thesis by simp
  next
    case False
    with Cons.prems have x: "x = e" by simp
    with Cons.prems have "i \<notin> set (List.map_filter highlightIndex es)"
      by (auto simp: List.map_filter_simps)
    moreover from x Cons.prems(3) have "store_indexed m x i = Some e"
      by (simp add: store_indexed_def)
    ultimately show ?thesis
      using foldl_store_absent [of i es "store_indexed m x"] by simp
  qed
qed

text \<open>
  Claim C5. In every DOM state the snapshot layer produces, the keys of the selector map
  are exactly the non-null highlight indices of the element nodes reachable from the root;
  every entry is an element of the tree stored under its own index; and when the indices
  of the tree are unique, every indexed element is the entry of its index.
\<close>

theorem selectorMap_keys:
  assumes "getClickableElements raw = Inr st"
  shows "dom (selectorMap st) = set (highlight_indices (elementTree st)) \<and>
         (\<forall>i e. selectorMap st i = Some e \<longrightarrow>
            e \<in> set (element_nodes (elementTree st)) \<and> highlightIndex e = Some i) \<and>
         (distinct (highlight_indices (elementTree st)) \<longrightarrow>
            (\<forall>e \<in> set (element_nodes (elementTree st)). \<forall>i. highlightIndex e = Some i \<longrightarrow>
               selectorMap st i = Some e))"
proof -
  from assms obtain tree where st: "st = \<lparr>elementTree = tree, selectorMap = createSelectorMap tree\<rparr>"
    by (auto simp: getClickableElements_def split: sum.splits)
  have sm: "selectorMap st = foldl store_indexed Map.empty (element_nodes tree)"
    by (simp add: st createSelectorMap_def processNode_flat)
  have tree: "elementTree st = tree" by (simp add: st)
  have keys: "dom (selectorMap st) = set (highlight_indices tree)"
    by (simp add: sm dom_foldl_store highlight_indices_def)
  have vals: "e \<in> set (element_nodes tree) \<and> highlightIndex e = Some i"
    if "selectorMap st i = Some e" for i e
  proof -
    from that have "foldl store_indexed Map.empty (element_nodes tree) i = Some e"
      by (simp only: sm)
    from foldl_store_value [OF this] show ?thesis by simp
  qed
  have all: "selectorMap st i = Some e"
    if "distinct (highlight_indices tree)" "e \<in> set (element_nodes tree)" "highlightIndex e = Some i"
    for i e
  proof -
    from that(1) have "distinct (List.map_filter highlightIndex (element_nodes tree))"
      by (simp only: highlight_indices_def)
    from foldl_store_distinct [OF this that(2,3), of Map.empty] show ?thesis
      by (simp only: sm)
  qed
  from keys vals all show ?thesis unfolding tree by blast
qed

theorem selectorMap_keys_witness:
  "getClickableElements (Some example_page_data) =
     Inr \<lparr>elementTree = example_page, selectorMap = createSelectorMap example_page\<rparr> \<and>
   dom (createSelectorMap example_page) = {0, 1} \<and>
   distinct (highlight_indices example_page) \<and>
   createSelectorMap example_page 1 =
     Some (DOMElementNode ''a'' ''/body/div/a'' [(''href'', ''/x'')] [] True True True (Some 1) False)"
proof -
  have snap: "getClickableElements (Some example_page_data) =
      Inr \<lparr>elementTree = example_page, selectorMap = createSelectorMap example_page\<rparr>"
    by (simp add: getClickableElements_def buildDomTree_def example_page_data_def
        example_page_def or_false_def)
  have idx: "highlight_indices example_page = [0, 1]"
    by (simp add: highlight_indices_def example_page_def List.map_filter_simps)
  have a: "DOMElementNode ''a'' ''/body/div/a'' [(''href'', ''/x'')] [] True True True (Some 1) False
      \<in> set (element_nodes example_page)"
    by (simp add: example_page_def)
  note k = selectorMap_keys [OF snap, unfolded DOMState.select_convs idx]
  from k have keys: "dom (createSelectorMap example_page) = set [0, 1]"
    by (rule conjunct1)
  have d: "distinct [0, 1 :: int]" by simp
  note all = k [THEN conjunct2, THEN conjunct2, THEN mp, OF d]
  have "highlightIndex (DOMElementNode ''a'' ''/body/div/a'' [(''href'', ''/x'')] [] True True True (Some 1) False) = Some 1"
    by simp
  with all a have one: "createSelectorMap example_page 1 =
     Some (DOMElementNode ''a'' ''/body/div/a'' [(''href'', ''/x'')] [] True True True (Some 1) False)"
    by blast
  from keys have "dom (createSelectorMap example_page) = {0, 1}" by simp
  with snap idx one show ?thesis by simp
qed

section \<open>Serialisation of the interactive elements\<close>

text \<open>
  Two facts behind the scenario below: an interactive element with an index always gets the
  empty inline text, and the serialisation throws on every tree with a text node.
\<close>

lemma interactive_indexed_text_empty:
  "getAllTextTillNextClickableElement (DOMElementNode tag xp attrs cs vis True te (Some i) sh) = []"
  by (simp add: getAllTextTillNextClickableElement_def trim_def)

lemma elements_traverse_text_throws:
  "(has_text_node n \<longrightarrow> (\<exists>e. elements_traverse attrs elems n = Inl e))"
  "((\<exists>c \<in> set cs. has_text_node c) \<longrightarrow> (\<exists>e. elements_traverse_children attrs elems cs = Inl e))"
proof (induction attrs elems n and attrs elems cs rule: elements_traverse_elements_traverse_children.induct)
  case (1 includeAttributes elems t vis)
  show ?case by simp
next
  case (2 includeAttributes elems tag xp attrs cs vis ia te hi sh)
  then show ?case by simp
next
  case (3 includeAttributes elems)
  show ?case by simp
next
  case (4 includeAttributes elems c cs)
  show ?case
  proof (cases "elements_traverse includeAttributes elems c")
    case (Inl e)
    then show ?thesis by simp
  next
    case (Inr elems')
    with 4 show ?thesis by auto
  qed
qed

lemma serialisation_throws_on_text:
  "has_text_node root \<Longrightarrow> \<exists>e. clickableElementsToString attrs root = Inl e"
  using elements_traverse_text_throws(1) [of root attrs "[]"]
  by (auto simp: clickableElementsToString_def)

text \<open>
  Claim C6, on the code. The button of the scenario parses to the one-child tree
  \<open>go_button\<close>. Its inline text is empty, because the walk of
  \<^verbatim>\<open>getAllTextTillNextClickableElement\<close> starts at the button itself and stops there, the
  button being interactive and indexed; and its serialisation throws a \<^verbatim>\<open>TypeError\<close> at the
  text child. Without the text child the button serialises to \<^verbatim>\<open>0[:]<button></button>\<close>.
\<close>

theorem go_button_serialisation:
  "buildDomTree (Some go_button_data) = Inr go_button \<and>
   getAllTextTillNextClickableElement go_button = [] \<and>
   clickableElementsToString [] go_button =
     Inl (TypeError ''node.getAllTextTillNextClickableElement is not a function'') \<and>
   clickableElementsToString []
     (DOMElementNode ''button'' ''/button'' [(''id'', ''go'')] [] True True True (Some 0) False) =
     Inr ''0[:]<button></button>''"
proof -
  have "buildDomTree (Some go_button_data) = Inr go_button"
    by (simp add: buildDomTree_def go_button_data_def go_button_def or_false_def)
  moreover have "getAllTextTillNextClickableElement go_button = []"
    by (simp add: go_button_def getAllTextTillNextClickableElement_def trim_def)
  moreover have "clickableElementsToString [] go_button =
      Inl (TypeError ''node.getAllTextTillNextClickableElement is not a function'')"
    by (simp add: go_button_def clickableElementsToString_def)
  moreover have "number_string 0 = ''0''"
    by (simp add: number_string_def nat_digits.simps digit_char_def)
  then have "clickableElementsToString []
      (DOMElementNode ''button'' ''/button'' [(''id'', ''go'')] [] True True True (Some 0) False) =
      Inr ''0[:]<button></button>''"
    by (simp add: clickableElementsToString_def render_element_def
        getAllTextTillNextClickableElement_def trim_def)
  ultimately show ?thesis by simp
qed

section \<open>Branch paths and hashed identities\<close>

lemma chain_nonempty: "chain e \<noteq> []"
  by (cases e rule: chain.cases) auto

lemma parents_loop_chain: "parents_loop e acc = acc @ butlast (chain e)"
  by (induction e acc rule: parents_loop.induct) (auto simp: chain_nonempty)

lemma rev_butlast_tl: "rev (butlast xs) = tl (rev xs)"
  by (induction xs) auto

lemma getParentBranchPath_chain:
  "getParentBranchPath e = tl (map (\<lambda>p. tagName (node p)) (rev (chain e)))"
  by (simp add: getParentBranchPath_def parents_loop_chain rev_butlast_tl map_tl)

lemma locate_chain:
  "locate par n p = Some e \<Longrightarrow>
   map (\<lambda>q. tagName (node q)) (rev (chain e)) =
     (case par of None \<Rightarrow> [] | Some q \<Rightarrow> map (\<lambda>q. tagName (node q)) (rev (chain q))) @
     tags_from_root n p"
proof (induction p arbitrary: par n)
  case Nil
  then show ?case by (cases par) auto
next
  case (Cons i p)
  then obtain tag xp attrs cs vis ia te hi sh where
    n: "n = DOMElementNode tag xp attrs cs vis ia te hi sh" and i: "i < length cs" and
    l: "locate (Some (Located n par)) (cs ! i) p = Some e"
    by (auto split: DOMNode.splits if_splits)
  from Cons.IH [OF l] n show ?case by (cases par) auto
qed

text \<open>
  Claim C8, as amended. For every element of a tree, the branch path recorded in its
  history element lists the tags on the way from the root down to the element, the element
  included and the root left out: the path begins with the tag of the root's child on that
  branch.
\<close>

theorem branch_path_excludes_root:
  assumes "locate None root p = Some e"
  shows "entireParentBranchPath (convertDomElementToHistoryElement e) = tl (tags_from_root root p)"
  using locate_chain [OF assms]
  by (simp add: convertDomElementToHistoryElement_def getParentBranchPath_chain)

lemmas page_defs = div_of_def div_node_def body_node_def page_with_div_def

theorem branch_path_excludes_root_witness:
  "locate None (page_with_div []) [0, 0] = Some (div_of []) \<and>
   entireParentBranchPath (convertDomElementToHistoryElement (div_of [])) =
     tl [''html'', ''body'', ''div'']"
proof -
  have l: "locate None (page_with_div []) [0, 0] = Some (div_of [])"
    by (simp add: page_defs)
  have "tags_from_root (page_with_div []) [0, 0] = [''html'', ''body'', ''div'']"
    by (simp add: page_defs)
  with branch_path_excludes_root [OF l] l show ?thesis by simp
qed

text \<open>
  Claim C8 as stated fails: for the \<^verbatim>\<open>div\<close> of \<^verbatim>\<open><html><body><div>\<close> the recorded path
  is \<^verbatim>\<open>body, div\<close>, and for the root itself it is empty, so the root's tag is never its
  first entry.
\<close>

theorem branch_path_root_counterexample:
  "locate None (page_with_div []) [0, 0] = Some (div_of []) \<and>
   tags_from_root (page_with_div []) [0, 0] = [''html'', ''body'', ''div''] \<and>
   entireParentBranchPath (convertDomElementToHistoryElement (div_of [])) = [''body'', ''div''] \<and>
   locate None (page_with_div []) [] = Some (Located (page_with_div []) None) \<and>
   entireParentBranchPath (convertDomElementToHistoryElement (Located (page_with_div []) None)) = []"
  by (simp add: page_defs convertDomElementToHistoryElement_def getParentBranchPath_def)

lemma hashDomElement_eq_iff:
  "hashDomElement H A = hashDomElement H B \<longleftrightarrow>
     H (join ''/'' (getParentBranchPath A)) = H (join ''/'' (getParentBranchPath B)) \<and>
     H (attributesString (attributes (node A))) = H (attributesString (attributes (node B)))"
  by (simp add: hashDomElement_def parentBranchPathHash_def attributesHashOf_def)

lemma compare_converted:
  "compareHistoryElementAndDomElement H (convertDomElementToHistoryElement A) B \<longleftrightarrow>
     hashDomElement H A = hashDomElement H B"
  by (simp add: compareHistoryElementAndDomElement_def hashDomHistoryElement_def
      hashDomElement_def convertDomElementToHistoryElement_def Let_def)

text \<open>
  Claim C7, as amended. Elements with identical branch paths and identical attribute
  entries have equal hashed surrogates. The converse holds for the serialised strings only:
  with a digest that has no collisions, two surrogates are equal exactly when the branch
  paths joined with \<^verbatim>\<open>/\<close> are the same string and the concatenated \<^verbatim>\<open>key=value\<close> entries
  are the same string. Comparing a history element made from \<open>A\<close> with an element \<open>B\<close>
  is comparing the two surrogates.
\<close>

theorem hashed_elements_equal:
  "(getParentBranchPath A = getParentBranchPath B \<and> attributes (node A) = attributes (node B) \<longrightarrow>
      hashDomElement H A = hashDomElement H B) \<and>
   (inj H \<longrightarrow>
      (hashDomElement H A = hashDomElement H B \<longleftrightarrow>
         join ''/'' (getParentBranchPath A) = join ''/'' (getParentBranchPath B) \<and>
         attributesString (attributes (node A)) = attributesString (attributes (node B)))) \<and>
   (compareHistoryElementAndDomElement H (convertDomElementToHistoryElement A) B \<longleftrightarrow>
      hashDomElement H A = hashDomElement H B)"
proof (intro conjI impI)
  assume "getParentBranchPath A = getParentBranchPath B \<and> attributes (node A) = attributes (node B)"
  then show "hashDomElement H A = hashDomElement H B"
    by (simp add: hashDomElement_eq_iff)
next
  assume "inj H"
  then have "H x = H y \<longleftrightarrow> x = y" for x y by (auto dest: injD)
  then show "hashDomElement H A = hashDomElement H B \<longleftrightarrow>
         join ''/'' (getParentBranchPath A) = join ''/'' (getParentBranchPath B) \<and>
         attributesString (attributes (node A)) = attributesString (attributes (node B))"
    by (simp add: hashDomElement_eq_iff)
next
  show "compareHistoryElementAndDomElement H (convertDomElementToHistoryElement A) B \<longleftrightarrow>
      hashDomElement H A = hashDomElement H B"
    by (rule compare_converted)
qed

theorem hashed_elements_equal_witness:
  "inj (\<lambda>s :: string. s) \<and>
   hashDomElement (\<lambda>s. s) (div_of [(''id'', ''go'')]) = hashDomElement (\<lambda>s. s) (div_of [(''id'', ''go'')]) \<and>
   hashDomElement (\<lambda>s. s) (div_of [(''id'', ''go'')]) \<noteq> hashDomElement (\<lambda>s. s) (div_of [(''id'', ''stop'')]) \<and>
   compareHistoryElementAndDomElement (\<lambda>s. s)
     (convertDomElementToHistoryElement (div_of [(''id'', ''go'')])) (div_of [(''id'', ''go'')])"
proof -
  have i: "inj (\<lambda>s :: string. s)" by (simp add: inj_def)
  have s: "attributesString (attributes (node (div_of [(''id'', ''go'')]))) \<noteq>
           attributesString (attributes (node (div_of [(''id'', ''stop'')])))"
    by (simp add: page_defs attributesString_def)
  note t1 = hashed_elements_equal [of "div_of [(''id'', ''go'')]" "div_of [(''id'', ''go'')]" "\<lambda>s. s"]
  note t2 = hashed_elements_equal [of "div_of [(''id'', ''go'')]" "div_of [(''id'', ''stop'')]" "\<lambda>s. s"]
  from t1 have e: "hashDomElement (\<lambda>s. s) (div_of [(''id'', ''go'')]) =
      hashDomElement (\<lambda>s. s) (div_of [(''id'', ''go'')])" by blast
  with t1 have c: "compareHistoryElementAndDomElement (\<lambda>s. s)
     (convertDomElementToHistoryElement (div_of [(''id'', ''go'')])) (div_of [(''id'', ''go'')])"
    by blast
  from t2 i s have "hashDomElement (\<lambda>s. s) (div_of [(''id'', ''go'')]) \<noteq>
      hashDomElement (\<lambda>s. s) (div_of [(''id'', ''stop'')])" by blast
  with i e c show ?thesis by blast
qed

lemma same_strings_same_hash:
  "hashDomElement H (div_of [(''a'', ''1b=2'')]) =
     hashDomElement H (div_of [(''a'', ''1''), (''b'', ''2'')])"
  by (simp add: page_defs hashDomElement_eq_iff getParentBranchPath_def attributesString_def)

text \<open>
  Claim C7 as stated fails: the attribute maps \<^verbatim>\<open>{a: "1b=2"}\<close> and \<^verbatim>\<open>{a: "1", b: "2"}\<close>
  differ, yet both serialise to \<^verbatim>\<open>a=1b=2\<close>, so the surrogates of the two elements are
  equal, here with the identity as digest and by \<open>same_strings_same_hash\<close> with any other.
\<close>

theorem hashed_elements_counterexample:
  "hashDomElement (\<lambda>s. s) (div_of [(''a'', ''1b=2'')]) =
     hashDomElement (\<lambda>s. s) (div_of [(''a'', ''1''), (''b'', ''2'')]) \<and>
   compareHistoryElementAndDomElement (\<lambda>s. s)
     (convertDomElementToHistoryElement (div_of [(''a'', ''1b=2'')]))
     (div_of [(''a'', ''1''), (''b'', ''2'')]) \<and>
   getParentBranchPath (div_of [(''a'', ''1b=2'')]) =
     getParentBranchPath (div_of [(''a'', ''1''), (''b'', ''2'')]) \<and>
   attributes (node (div_of [(''a'', ''1b=2'')])) \<noteq>
     attributes (node (div_of [(''a'', ''1''), (''b'', ''2'')]))"
  by (simp add: page_defs compare_converted hashDomElement_eq_iff getParentBranchPath_def
      attributesString_def)


section \<open>The running total of the history\<close>

lemma history_ok_alt: "history_ok h \<longleftrightarrow> totalTokens h = tokens_sum (messages h)"
  by (simp add: history_ok_def tokens_sum_def)

lemma tokens_sum_append: "tokens_sum (xs @ ys) = tokens_sum xs + tokens_sum ys"
  by (simp add: tokens_sum_def)

lemma tokens_sum_single: "tokens_sum [m] = inputTokens (metadata m)"
  by (simp add: tokens_sum_def)

lemma tokens_sum_remove:
  "i < length ms \<Longrightarrow>
   tokens_sum (take i ms @ drop (Suc i) ms) = tokens_sum ms - inputTokens (metadata (ms ! i))"
proof -
  assume "i < length ms"
  then have "ms = take i ms @ (ms ! i) # drop (Suc i) ms" by (rule id_take_nth_drop)
  then have "tokens_sum ms = tokens_sum (take i ms @ (ms ! i) # drop (Suc i) ms)" by simp
  then show ?thesis by (simp add: tokens_sum_def)
qed

lemma addMessageWithTokens_ok:
  "history_ok (history mm) \<Longrightarrow> history_ok (history (addMessageWithTokens mm msg))"
  by (simp add: history_ok_alt addMessageWithTokens_def Let_def tokens_sum_append tokens_sum_single)

lemma removeMessage_ok:
  assumes "history_ok (history mm)"
  shows "history_ok (history (snd (removeMessage mm idx)))"
proof (cases "0 \<le> idx \<and> idx < int (length (messages (history mm)))")
  case True
  then have "nat idx < length (messages (history mm))" by linarith
  from tokens_sum_remove [OF this] True assms show ?thesis
    by (simp add: history_ok_alt removeMessage_def Let_def)
next
  case False
  then have "removeMessage mm idx =
      (Inl (TypeError ''Cannot read properties of undefined (reading 'metadata')''), mm)"
    by (auto simp: removeMessage_def)
  with assms show ?thesis by simp
qed

lemma removeMessage_default:
  "removeMessage mm (- 1) =
     (Inl (TypeError ''Cannot read properties of undefined (reading 'metadata')''), mm)"
  by (simp add: removeMessage_def)

lemma removeLastStateMessage_ok:
  "history_ok (history mm) \<Longrightarrow> history_ok (history (snd (removeLastStateMessage mm)))"
  by (simp add: removeLastStateMessage_def removeMessage_default)

lemma drop_images_fold:
  "foldl (drop_images_step img) (tx, tokens, tot) items = (tx', tokens', tot') \<Longrightarrow>
   tot' - tokens' = tot - tokens"
proof (induction items arbitrary: tx tokens tot)
  case Nil
  then show ?case by simp
next
  case (Cons item items)
  obtain t1 k1 s1 where step: "drop_images_step img (tx, tokens, tot) item = (t1, k1, s1)"
    by (cases "drop_images_step img (tx, tokens, tot) item") auto
  then have "s1 - k1 = tot - tokens"
    by (auto simp: drop_images_step_def split: if_splits option.splits)
  moreover from Cons.prems step have "foldl (drop_images_step img) (t1, k1, s1) items = (tx', tokens', tot')"
    by simp
  from Cons.IH [OF this] have "tot' - tokens' = s1 - k1" .
  ultimately show ?case by simp
qed

lemma drop_images_ok:
  assumes "history_ok (history mm)" and "messages (history mm) \<noteq> []"
  shows "history_ok (history (drop_images mm))"
proof (cases "content (message (last (messages (history mm))))")
  case (StringContent s)
  with assms show ?thesis by (simp add: drop_images_def Let_def)
next
  case (ArrayContent items)
  obtain tx tokens tot where f:
    "foldl (drop_images_step (IMG_TOKENS mm))
       ([], inputTokens (metadata (last (messages (history mm)))), totalTokens (history mm)) items =
     (tx, tokens, tot)"
    by (metis prod_cases3)
  from drop_images_fold [OF f] have d:
    "tot - tokens = totalTokens (history mm) - inputTokens (metadata (last (messages (history mm))))" .
  from assms(2) have "messages (history mm) = butlast (messages (history mm)) @ [last (messages (history mm))]"
    by simp
  then have "tokens_sum (messages (history mm)) =
      tokens_sum (butlast (messages (history mm))) + inputTokens (metadata (last (messages (history mm))))"
    by (metis tokens_sum_append tokens_sum_single)
  with assms(1) d have "tot = tokens_sum (butlast (messages (history mm))) + tokens"
    by (simp add: history_ok_alt)
  with ArrayContent f show ?thesis
    by (simp add: drop_images_def Let_def history_ok_alt tokens_sum_append tokens_sum_single)
qed

lemma cutMessages_ok:
  assumes "history_ok (history mm)"
  shows "history_ok (history (snd (cutMessages mm)))"
proof (cases "totalTokens (history mm) - maxInputTokens mm \<le> 0 \<or> messages (history mm) = []")
  case True
  with assms show ?thesis by (auto simp: cutMessages_def Let_def)
next
  case False
  then have ne: "messages (history mm) \<noteq> []" by simp
  from drop_images_ok [OF assms ne] False show ?thesis
    by (simp add: cutMessages_def Let_def removeMessage_default)
qed

lemma getMessages_ok:
  "history_ok (history mm) \<Longrightarrow> history_ok (history (snd (getMessages mm)))"
  using cutMessages_ok [of mm]
  by (cases "cutMessages mm") (auto simp: getMessages_def split: sum.splits)

lemma remember_result_ok:
  "history_ok (history (fst st)) \<Longrightarrow> history_ok (history (fst (remember_result st r)))"
  by (cases st)
     (auto simp: remember_result_def Let_def if_truthy_def addMessageWithTokens_ok split: option.splits)

lemma foldl_remember_ok:
  "history_ok (history (fst st)) \<Longrightarrow> history_ok (history (fst (foldl remember_result st rs)))"
  by (induction rs arbitrary: st) (simp_all add: remember_result_ok)

lemma addStateMessage_ok:
  assumes "history_ok (history mm)"
  shows "history_ok (history (snd (addStateMessage mm st rs si)))"
proof -
  define st1 where "st1 = (case rs of None \<Rightarrow> (mm, None) | Some l \<Rightarrow> foldl remember_result (mm, Some l) l)"
  have "history_ok (history (fst st1))"
    using assms foldl_remember_ok [of "(mm, rs)"] by (auto simp: st1_def split: option.splits)
  then show ?thesis
    unfolding addStateMessage_def st1_def [symmetric]
    by (cases st1) auto
qed

lemma newMessageManager_ok:
  "history_ok (history (newMessageManager c t s m k i a e))"
proof -
  have "history_ok (history \<lparr>llm = c, history = \<lparr>messages = [], totalTokens = 0\<rparr>,
      maxInputTokens = m, ESTIMATED_TOKENS_PER_CHARACTER = k, IMG_TOKENS = i,
      includeAttributes = a, maxErrorLength = e, task = t, systemPrompt = s\<rparr>)"
    by (simp add: history_ok_def)
  then show ?thesis
    by (simp add: newMessageManager_def Let_def addMessageWithTokens_ok)
qed

text \<open>
  Claim C4. The running total of the history equals the sum of its records' token counts
  after construction, and every operation of the manager preserves this, whether it
  returns or throws: adding a message, adding the state message (with the results kept in
  memory), adding the model output, dropping the last state message, removing the message
  at any index, and trimming, with its image-drop and proportional-cut branches, directly
  or through \<open>getMessages\<close>.
\<close>

theorem history_total_invariant:
  "history_ok (history (newMessageManager c t s m k i a e)) \<and>
   (history_ok (history mm) \<longrightarrow>
      history_ok (history (addMessageWithTokens mm msg)) \<and>
      history_ok (history (snd (addStateMessage mm st rs si))) \<and>
      history_ok (history (addModelOutput mm json)) \<and>
      history_ok (history (snd (removeLastStateMessage mm))) \<and>
      history_ok (history (snd (removeMessage mm idx))) \<and>
      history_ok (history (snd (cutMessages mm))) \<and>
      history_ok (history (snd (getMessages mm))))"
  using newMessageManager_ok addMessageWithTokens_ok addStateMessage_ok removeLastStateMessage_ok
    removeMessage_ok cutMessages_ok getMessages_ok
  by (simp add: addModelOutput_def)

lemmas manager_defs = example_manager_def newMessageManager_def addMessageWithTokens_def
  countTokens_def countTextTokens_def Let_def

lemma with_state_history:
  "history (with_state b) =
     \<lparr>messages =
        [\<lparr>message = \<lparr>role = ''system'', content = StringContent ''You are an agent''\<rparr>,
          metadata = \<lparr>inputTokens = 5\<rparr>\<rparr>,
         \<lparr>message = \<lparr>role = ''user'', content = StringContent ''Your task is: book a flight''\<rparr>,
          metadata = \<lparr>inputTokens = 9\<rparr>\<rparr>,
         \<lparr>message = \<lparr>role = ''user'', content = StringContent (replicate 3000 CHR ''x'')\<rparr>,
          metadata = \<lparr>inputTokens = 1000\<rparr>\<rparr>],
      totalTokens = 1014\<rparr>"
  by (simp add: with_state_def manager_defs)

lemma with_state_budget: "maxInputTokens (with_state b) = b"
  by (simp add: with_state_def manager_defs)

lemma with_image_history:
  "history (with_image b) =
     \<lparr>messages =
        [\<lparr>message = \<lparr>role = ''system'', content = StringContent ''You are an agent''\<rparr>,
          metadata = \<lparr>inputTokens = 5\<rparr>\<rparr>,
         \<lparr>message = \<lparr>role = ''user'', content = StringContent ''Your task is: book a flight''\<rparr>,
          metadata = \<lparr>inputTokens = 9\<rparr>\<rparr>,
         \<lparr>message = \<lparr>role = ''user'', content = ArrayContent
            [\<lparr>image_url = None, part_text = Some (replicate 3000 CHR ''x'')\<rparr>,
             \<lparr>image_url = Some ''data:image/png;base64,AAAA'', part_text = None\<rparr>]\<rparr>,
          metadata = \<lparr>inputTokens = 1800\<rparr>\<rparr>],
      totalTokens = 1814\<rparr>"
  by (simp add: with_image_def manager_defs)

lemma with_image_fields:
  "maxInputTokens (with_image b) = b" "IMG_TOKENS (with_image b) = 800"
  by (simp_all add: with_image_def manager_defs)

lemma drop_images_with_image:
  "history (drop_images (with_image b)) =
     \<lparr>messages =
        [\<lparr>message = \<lparr>role = ''system'', content = StringContent ''You are an agent''\<rparr>,
          metadata = \<lparr>inputTokens = 5\<rparr>\<rparr>,
         \<lparr>message = \<lparr>role = ''user'', content = StringContent ''Your task is: book a flight''\<rparr>,
          metadata = \<lparr>inputTokens = 9\<rparr>\<rparr>,
         \<lparr>message = \<lparr>role = ''user'', content = StringContent (replicate 3000 CHR ''x'')\<rparr>,
          metadata = \<lparr>inputTokens = 1000\<rparr>\<rparr>],
      totalTokens = 1014\<rparr>"
  "maxInputTokens (drop_images (with_image b)) = b"
  by (simp_all add: drop_images_def Let_def with_image_history with_image_fields drop_images_step_def)

theorem history_total_invariant_witness:
  "history_ok (history (with_image 900)) \<and>
   history_ok (history (snd (cutMessages (with_image 900)))) \<and>
   totalTokens (history (snd (cutMessages (with_image 900)))) = 1014 \<and>
   cutMessages (with_image 1500) = (Inr (), drop_images (with_image 1500)) \<and>
   history_ok (history (snd (removeMessage (with_image 900) 0))) \<and>
   totalTokens (history (snd (removeMessage (with_image 900) 0))) = 1809"
proof -
  have m: "history_ok (history (example_manager 900))"
    unfolding example_manager_def using history_total_invariant by blast
  with history_total_invariant [of _ _ _ _ _ _ _ _ "example_manager 900"]
  have i: "history_ok (history (with_image 900))"
    unfolding with_image_def by blast
  with history_total_invariant [of _ _ _ _ _ _ _ _ "with_image 900" _ _ _ _ _ 0]
  have "history_ok (history (snd (cutMessages (with_image 900))))"
    and "history_ok (history (snd (removeMessage (with_image 900) 0)))"
    by blast+
  moreover have "cutMessages (with_image 900) =
     (Inl (TypeError ''Cannot read properties of undefined (reading 'metadata')''),
      drop_images (with_image 900))"
    by (simp add: cutMessages_def Let_def with_image_history with_image_fields
        drop_images_with_image proportion_exceeds_def removeMessage_default)
  moreover have "cutMessages (with_image 1500) = (Inr (), drop_images (with_image 1500))"
    by (simp add: cutMessages_def Let_def with_image_history with_image_fields
        drop_images_with_image)
  moreover have "totalTokens (history (snd (removeMessage (with_image 900) 0))) = 1809"
    by (simp add: removeMessage_def with_image_history)
  ultimately show ?thesis using i by (simp add: drop_images_with_image)
qed

section \<open>Trimming and dropping the last state message\<close>

text \<open>
  Claim C3, on the code. With a state message of 1000 tokens and no image, a total of 1014
  and a budget of 900, the proportion to remove is 0.114; \<open>cutMessages\<close> and \<open>getMessages\<close>
  then fail with the \<^verbatim>\<open>TypeError\<close> of \<^verbatim>\<open>_removeMessage()\<close>, not with the overflow error,
  and leave the total at 1014. With a screenshot and a budget of 819, dropping the image
  leaves an overshoot of 195 against a newest message of 1000 tokens, a proportion of 0.195;
  the call fails with the overflow error all the same, computed from the overshoot 995 of
  before the image was dropped.
\<close>

theorem trimming_fails_with_TypeError:
  "totalTokens (history (with_state 900)) = 1014 \<and>
   cutMessages (with_state 900) =
     (Inl (TypeError ''Cannot read properties of undefined (reading 'metadata')''), with_state 900) \<and>
   fst (getMessages (with_state 900)) =
     Inl (TypeError ''Cannot read properties of undefined (reading 'metadata')'') \<and>
   totalTokens (history (snd (getMessages (with_state 900)))) = 1014 \<and>
   totalTokens (history (snd (cutMessages (with_image 819)))) - 819 = 195 \<and>
   inputTokens (metadata (last (messages (history (snd (cutMessages (with_image 819))))))) = 1000 \<and>
   fst (cutMessages (with_image 819)) = Inl (Error (overflow_message 995 1000))"
proof -
  have c: "cutMessages (with_state 900) =
     (Inl (TypeError ''Cannot read properties of undefined (reading 'metadata')''), with_state 900)"
    by (simp add: cutMessages_def Let_def with_state_history with_state_budget drop_images_def
        proportion_exceeds_def removeMessage_default)
  have d: "cutMessages (with_image 819) =
     (Inl (Error (overflow_message 995 1000)), drop_images (with_image 819))"
    by (simp add: cutMessages_def Let_def with_image_history with_image_fields
        drop_images_with_image proportion_exceeds_def)
  from c d show ?thesis
    by (simp add: getMessages_def with_state_history drop_images_with_image)
qed

lemma removeLastStateMessage_unchanged: "snd (removeLastStateMessage mm) = mm"
  by (simp add: removeLastStateMessage_def removeMessage_default)

text \<open>
  Claim C10, on the code. On a history of three messages whose last has the role
  \<^verbatim>\<open>user\<close>, dropping the last state message throws a \<^verbatim>\<open>TypeError\<close> and removes nothing;
  by \<open>removeLastStateMessage_unchanged\<close> it never changes the history at all.
\<close>

theorem removeLastStateMessage_removes_nothing:
  "length (messages (history (with_state 900))) = 3 \<and>
   role (message (last (messages (history (with_state 900))))) = ''user'' \<and>
   removeLastStateMessage (with_state 900) =
     (Inl (TypeError ''Cannot read properties of undefined (reading 'metadata')''), with_state 900)"
  by (simp add: removeLastStateMessage_def removeMessage_default with_state_history)

section \<open>Failure accounting of a step\<close>


lemma finally_block_keeps:
  "result (snd (finally_block env p f)) = result f \<and>
   consecutiveFailures (agent (snd (finally_block env p f))) = consecutiveFailures (agent f) \<and>
   lastResult (agent (snd (finally_block env p f))) = lastResult (agent f)"
  by (auto simp: finally_block_def makeHistoryItem_def Let_def split: prod.splits sum.splits option.splits)






lemmas example_run_defs = try_block_def example_env_def example_agent_def
  newMessageManager_def addMessageWithTokens_def countTokens_def countTextTokens_def Let_def



lemma ex_history:
  "history (messageManager example_agent) =
     \<lparr>messages =
        [\<lparr>message = \<lparr>role = ''system'', content = StringContent (replicate 300 CHR ''s'')\<rparr>,
          metadata = \<lparr>inputTokens = 100\<rparr>\<rparr>,
         \<lparr>message = \<lparr>role = ''user'', content = StringContent ''Your task is: book a flight''\<rparr>,
          metadata = \<lparr>inputTokens = 9\<rparr>\<rparr>],
      totalTokens = 109\<rparr> \<and>
   agent_maxInputTokens example_agent = 520 \<and> consecutiveFailures example_agent = 2 \<and>
   lastResult example_agent = None"
  by (simp add: example_run_defs)




section \<open>The try block of a step never completes\<close>

text \<open>
  When \<^verbatim>\<open>getState\<close> returns, \<^verbatim>\<open>addStateMessage\<close> throws its \<^verbatim>\<open>ReferenceError\<close>; so the \<^verbatim>\<open>try\<close>
  block of a step ends with an exception on every input, and the statement that resets
  the counter is not reached. On the example page the step counts the failure.
\<close>

lemma addStateMessage_throws:
  "fst (addStateMessage mm st rs si) = Inl (ReferenceError ''AgentMessagePrompt is not defined'')"
  by (simp add: addStateMessage_def split: prod.splits)

lemma try_block_never_completes:
  "\<exists>e. fst (try_block env si a w) = Some e"
proof (cases "getState env (useVision a) w")
  case (Pair r w1)
  show ?thesis
  proof (cases r)
    case (Inl e)
    with Pair show ?thesis by (simp add: try_block_def)
  next
    case (Inr st)
    obtain x mm1 where m: "addStateMessage (messageManager a) st (lastResult a) si = (x, mm1)"
      by (cases "addStateMessage (messageManager a) st (lastResult a) si") auto
    with addStateMessage_throws [of "messageManager a" st "lastResult a" si]
    have "x = Inl (ReferenceError ''AgentMessagePrompt is not defined'')" by simp
    with Pair Inr m show ?thesis by (simp add: try_block_def)
  qed
qed

lemma step_state_message_failure:
  "result (snd (step (example_env (Inr example_browser_state)) None example_agent [])) =
     [\<lparr>error = Some ''AgentMessagePrompt is not defined'', extractedContent = None,
       includeInMemory = Some True, isDone = None\<rparr>] \<and>
   consecutiveFailures (agent (snd (step (example_env (Inr example_browser_state)) None example_agent []))) = 3"
proof -
  let ?env = "example_env (Inr example_browser_state)"
  let ?e = "ReferenceError ''AgentMessagePrompt is not defined''"
  let ?res = "[\<lparr>error = Some ''AgentMessagePrompt is not defined'', extractedContent = None,
                 includeInMemory = Some True, isDone = None\<rparr>]"
  obtain f where t: "try_block ?env None example_agent [] = (Some ?e, f)"
    and f: "agent f = example_agent"
    by (simp add: try_block_def example_env_def addStateMessage_def example_agent_def)
  have h: "handleStepError ?env example_agent ?e =
      (Inr ?res, example_agent\<lparr>consecutiveFailures := consecutiveFailures example_agent + 1\<rparr>)"
    by (simp add: handleStepError_def Let_def formatError_def example_env_def ReferenceError_def)
  define g where "g = f\<lparr>agent := example_agent\<lparr>consecutiveFailures := consecutiveFailures example_agent + 1,
                                               lastResult := Some ?res\<rparr>,
                       result := ?res\<rparr>"
  have s: "step ?env None example_agent [] = finally_block ?env None g"
    by (simp add: step_def t f h g_def)
  have g: "result g = ?res" "consecutiveFailures (agent g) = 3"
    by (simp_all add: g_def ex_history)
  from finally_block_keeps [of ?env None g] g show ?thesis
    unfolding s by simp
qed

end
